theory Spec2Isabelle
  imports Complex_Main
begin

section \<open>The Iridescence component: data model\<close>

text \<open>
  The development embeds the effect of the \<open>Iridescence\<close> React component
  (\<open>src/unnamed/part_000\<close>): its closure variables, the two React refs, and the part of
  the browser the effect talks to (animation-frame requests, timeouts, listeners, the
  canvas node, the GL context).

  Numbers. JavaScript numbers are IEEE doubles; here they are real numbers. The frame
  gate of \<open>update\<close> compares and takes a remainder, which are not continuous in their
  arguments, so its arithmetic is done as the doubles do it: \<open>FRAME_DURATION\<close> is the
  double that \<open>1000 / 30\<close> evaluates to, the two subtractions of the gate are rounded to
  the nearest double, and the remainder of two doubles is exact, as it is in IEEE
  arithmetic. The pointer uniform is a \<open>Float32Array\<close>: what is stored in it is rounded
  to the nearest single. The rest of the arithmetic (the smoothing step, \<open>t * 0.001\<close>,
  the throttle, the pointer normalisation, the aspect ratio) is exact, and differs from
  the doubles by rounding. \<open>NaN\<close> and the infinities are not modelled, so neither is
  overflow. The source divides in two places (the aspect ratio in \<open>resize\<close> and the
  program constructor, the pointer normalisation in \<open>handleMouseMove\<close>); HOL's
  \<open>x / 0 = 0\<close> is not what JavaScript computes there (an infinity or \<open>NaN\<close>). A theorem
  that gives such a quotient a value assumes a nonzero divisor; a theorem that only says
  which quotient a field holds (the third component of \<open>uResolution\<close> is
  \<open>canvas.width / canvas.height\<close>) is to be read with that proviso.
\<close>

type_synonym vec2 = "real \<times> real"
type_synonym vec3 = "real \<times> real \<times> real"

text \<open>The props of the component, with the defaults of the parameter list (lines 68-74).\<close>

record props =
  color :: vec3
  speed :: real
  amplitude :: real
  mouseReact :: bool

definition default_props :: props where
  "default_props = \<lparr>color = (1, 1, 1), speed = 1.0, amplitude = 0.1, mouseReact = True\<rparr>"

text \<open>The \<open>uniforms\<close> object handed to \<open>new Program\<close> (lines 126-135).\<close>

record uniforms =
  uTime :: real
  uColor :: vec3
  uResolution :: vec3
  uMouse :: vec2
  uAmplitude :: real
  uSpeed :: real

text \<open>
  What the effect reads from its surroundings: the layout box of the container
  (\<open>offsetWidth\<close>, \<open>offsetHeight\<close>, \<open>getBoundingClientRect()\<close>),
  \<open>window.devicePixelRatio\<close>, whether the GL context offers \<open>WEBGL_lose_context\<close>, and
  the renderer library's \<open>setSize\<close>. The library (\<open>ogl\<close>) is a dependency, not part of
  the repository: \<open>renderer_setSize dpr w h\<close> stands for the size \<open>(gl.canvas.width,
  gl.canvas.height)\<close> that a renderer built with pixel ratio \<open>dpr\<close> gives its canvas
  when asked for \<open>w\<close> by \<open>h\<close>. It is a parameter of the model.
\<close>

record host =
  ctn_present :: bool
  offsetWidth :: real
  offsetHeight :: real
  rect_left :: real
  rect_top :: real
  rect_width :: real
  rect_height :: real
  devicePixelRatio :: real
  lose_context_ext :: bool
  renderer_setSize :: "real \<Rightarrow> real \<Rightarrow> real \<Rightarrow> real \<times> real"

text \<open>\<open>gl.canvas.parentNode\<close>: absent, the container, or some other node.\<close>

datatype parent = Container | Elsewhere

text \<open>The calls to the browser that acquire or release something, in program order.\<close>

datatype hostcall =
    NewRenderer
  | AddResizeListener
  | RemoveResizeListener
  | RequestAnimationFrame nat
  | CancelAnimationFrame "nat option"
  | SetTimeout nat
  | ClearTimeout "nat option"
  | AppendChild
  | RemoveChild
  | AddMouseListener
  | RemoveMouseListener
  | LoseContext

datatype error = TypeError | NotFoundError

record state =
  \<comment> \<open>the React refs (lines 76-77)\<close>
  mousePos :: vec2
  targetMousePos :: vec2
  \<comment> \<open>variables of the effect's closure\<close>
  dpr :: real
  program :: "uniforms option"
  resizeTimeout :: "nat option"
  animateId :: "nat option"
  lastFrameTime :: real
  lastMouseUpdate :: real
  \<comment> \<open>the canvas of the renderer\<close>
  canvas_width :: real
  canvas_height :: real
  canvas_style :: "string \<times> string"
  canvas_parent :: "parent option"
  context_lost :: bool
  \<comment> \<open>the browser: what is registered and pending\<close>
  env :: host
  pending_frames :: "nat set"
  pending_timers :: "nat set"
  resize_listener :: bool
  mouse_listener :: bool
  next_handle :: nat
  \<comment> \<open>effects observed from outside: one entry per draw call, and the call log\<close>
  drawn :: "uniforms list"
  calls :: "hostcall list"

text \<open>The component before its first effect: both refs at the centre.\<close>

definition first_render :: "host \<Rightarrow> state" where
  "first_render h =
     \<lparr>mousePos = (0.5, 0.5), targetMousePos = (0.5, 0.5),
      dpr = 0, program = None, resizeTimeout = None, animateId = None,
      lastFrameTime = 0, lastMouseUpdate = 0,
      canvas_width = 0, canvas_height = 0, canvas_style = ('''', ''''),
      canvas_parent = None, context_lost = False,
      env = h, pending_frames = {}, pending_timers = {},
      resize_listener = False, mouse_listener = False, next_handle = 1,
      drawn = [], calls = []\<rparr>"

section \<open>Rounding to binary floating point\<close>

text \<open>
  \<open>round_binary p emin x\<close> is \<open>x\<close> rounded to the nearest number with a significand of
  \<open>p\<close> bits and an exponent of at least \<open>emin\<close> (below which the numbers are subnormal and
  equally spaced), a tie going to the even significand. \<open>bits n\<close> is the number of binary
  digits of \<open>n\<close>, and \<open>ilog2 x\<close> the integer part of the binary logarithm of a positive
  \<open>x\<close>.
\<close>

fun bits :: "nat \<Rightarrow> nat" where
  "bits n = (if n = 0 then 0 else Suc (bits (n div 2)))"

declare bits.simps [simp del]

definition ilog2 :: "real \<Rightarrow> int" where
  "ilog2 x = (if 1 \<le> x then int (bits (nat \<lfloor>x\<rfloor>)) - 1
              else - int (bits (nat (\<lceil>1 / x\<rceil> - 1))))"

definition round_even :: "real \<Rightarrow> int" where
  "round_even y =
     (let f = \<lfloor>y\<rfloor>; d = y - of_int f
      in if d < 1 / 2 then f else if 1 / 2 < d then f + 1 else if even f then f else f + 1)"

definition round_binary :: "nat \<Rightarrow> int \<Rightarrow> real \<Rightarrow> real" where
  "round_binary p emin x =
     (if x = 0 then 0
      else let e = max (ilog2 \<bar>x\<bar>) emin;
               u = 2 powi (e - int p + 1)
           in of_int (round_even (x / u)) * u)"

text \<open>The doubles of JavaScript's numbers, and the singles of a \<open>Float32Array\<close>.\<close>

definition binary64 :: "real \<Rightarrow> real" where
  "binary64 = round_binary 53 (- 1022)"

definition binary32 :: "real \<Rightarrow> real" where
  "binary32 = round_binary 24 (- 126)"

section \<open>Constants (lines 61-66)\<close>

definition TARGET_FPS :: real where
  "TARGET_FPS = 30"

definition FRAME_DURATION :: real where
  "FRAME_DURATION = binary64 (1000 / TARGET_FPS)"

definition MOUSE_THROTTLE :: real where
  "MOUSE_THROTTLE = 50"

text \<open>
  The remainder operator \<open>%\<close> of JavaScript on finite numbers with a nonzero divisor: the
  quotient is truncated towards zero, so the result has the sign of the dividend.
\<close>

definition js_trunc :: "real \<Rightarrow> int" where
  "js_trunc q = (if 0 \<le> q then \<lfloor>q\<rfloor> else \<lceil>q\<rceil>)"

definition js_rem :: "real \<Rightarrow> real \<Rightarrow> real" where
  "js_rem a b = a - b * of_int (js_trunc (a / b))"

section \<open>The browser primitives the effect calls\<close>

definition log_call :: "hostcall \<Rightarrow> state \<Rightarrow> state" where
  "log_call c s = s\<lparr>calls := calls s @ [c]\<rparr>"

definition requestAnimationFrame :: "state \<Rightarrow> nat \<times> state" where
  "requestAnimationFrame s =
     (next_handle s,
      log_call (RequestAnimationFrame (next_handle s))
        (s\<lparr>pending_frames := insert (next_handle s) (pending_frames s),
           next_handle := Suc (next_handle s)\<rparr>))"

definition cancelAnimationFrame :: "nat option \<Rightarrow> state \<Rightarrow> state" where
  "cancelAnimationFrame i s =
     log_call (CancelAnimationFrame i)
       (case i of None \<Rightarrow> s | Some n \<Rightarrow> s\<lparr>pending_frames := pending_frames s - {n}\<rparr>)"

definition setTimeout :: "state \<Rightarrow> nat \<times> state" where
  "setTimeout s =
     (next_handle s,
      log_call (SetTimeout (next_handle s))
        (s\<lparr>pending_timers := insert (next_handle s) (pending_timers s),
           next_handle := Suc (next_handle s)\<rparr>))"

definition clearTimeout :: "nat option \<Rightarrow> state \<Rightarrow> state" where
  "clearTimeout i s =
     log_call (ClearTimeout i)
       (case i of None \<Rightarrow> s | Some n \<Rightarrow> s\<lparr>pending_timers := pending_timers s - {n}\<rparr>)"

text \<open>\<open>renderer.render({ scene: mesh })\<close>: one draw call, reading the program's uniforms.\<close>

definition render :: "state \<Rightarrow> error + state" where
  "render s =
     (case program s of
        None \<Rightarrow> Inl TypeError
      | Some u \<Rightarrow> Inr (s\<lparr>drawn := drawn s @ [u]\<rparr>))"

section \<open>The effect (lines 79-192)\<close>

text \<open>\<open>resize\<close>, lines 94-110.\<close>

definition resize :: "state \<Rightarrow> state" where
  "resize s0 =
     (let scale = 0.5;
          sz = renderer_setSize (env s0) (dpr s0)
                 (offsetWidth (env s0) * scale) (offsetHeight (env s0) * scale);
          s = s0\<lparr>canvas_width := fst sz, canvas_height := snd sz\<rparr>;
          s = s\<lparr>canvas_style := (''100%'', ''100%'')\<rparr>
      in case program s of
           None \<Rightarrow> s
         | Some u \<Rightarrow>
             s\<lparr>program := Some (u\<lparr>uResolution :=
                  (canvas_width s, canvas_height s, canvas_width s / canvas_height s)\<rparr>)\<rparr>)"

text \<open>\<open>handleResize\<close>, lines 113-117: the debounce.\<close>

definition handleResize :: "state \<Rightarrow> state" where
  "handleResize s0 =
     (let s = clearTimeout (resizeTimeout s0) s0;
          (i, s) = setTimeout s
      in s\<lparr>resizeTimeout := Some i\<rparr>)"

text \<open>\<open>update\<close>, lines 142-159.\<close>

definition update :: "real \<Rightarrow> state \<Rightarrow> error + state" where
  "update t s0 =
     (let (i, s) = requestAnimationFrame s0;
          s = s\<lparr>animateId := Some i\<rparr>;
          elapsed = binary64 (t - lastFrameTime s)
      in if elapsed < FRAME_DURATION then Inr s
         else
           let s = s\<lparr>lastFrameTime := binary64 (t - js_rem elapsed FRAME_DURATION)\<rparr>;
               lerpFactor = 0.1;
               s = s\<lparr>mousePos :=
                     (fst (mousePos s) + (fst (targetMousePos s) - fst (mousePos s)) * lerpFactor,
                      snd (mousePos s))\<rparr>;
               s = s\<lparr>mousePos :=
                     (fst (mousePos s),
                      snd (mousePos s) + (snd (targetMousePos s) - snd (mousePos s)) * lerpFactor)\<rparr>
           in case program s of
                None \<Rightarrow> Inl TypeError
              | Some u \<Rightarrow>
                  let u = u\<lparr>uMouse := (binary32 (fst (mousePos s)), snd (uMouse u))\<rparr>;
                      u = u\<lparr>uMouse := (fst (uMouse u), binary32 (snd (mousePos s)))\<rparr>;
                      u = u\<lparr>uTime := t * 0.001\<rparr>
                  in render (s\<lparr>program := Some u\<rparr>))"

text \<open>
  \<open>handleMouseMove\<close>, lines 165-174. \<open>now\<close> is the value of \<open>performance.now()\<close>,
  \<open>clientX\<close> and \<open>clientY\<close> are the fields of the event.
\<close>

definition handleMouseMove :: "real \<Rightarrow> real \<Rightarrow> real \<Rightarrow> state \<Rightarrow> state" where
  "handleMouseMove now clientX clientY s =
     (if now - lastMouseUpdate s < MOUSE_THROTTLE then s
      else
        let s = s\<lparr>lastMouseUpdate := now\<rparr>;
            x = (clientX - rect_left (env s)) / rect_width (env s);
            y = 1.0 - (clientY - rect_top (env s)) / rect_height (env s)
        in s\<lparr>targetMousePos := (x, y)\<rparr>)"

text \<open>
  The body of the effect, in three parts: lines 81-119 (renderer, \<open>let program\<close>, the
  resize listener), the call \<open>resize()\<close> of line 120, and lines 122-178 (program, mesh,
  first animation-frame request, canvas attached, pointer listener). A new renderer
  brings a new canvas and a new context.
\<close>

definition effect_setup :: "state \<Rightarrow> state" where
  "effect_setup s0 =
     (let s = log_call NewRenderer
                (s0\<lparr>dpr := min (devicePixelRatio (env s0)) 1.5,
                    canvas_width := 0, canvas_height := 0, canvas_style := ('''', ''''),
                    canvas_parent := None, context_lost := False\<rparr>);
          s = s\<lparr>program := None\<rparr>;
          s = s\<lparr>resizeTimeout := None\<rparr>
      in log_call AddResizeListener (s\<lparr>resize_listener := True\<rparr>))"

definition effect_from_program :: "props \<Rightarrow> state \<Rightarrow> state" where
  "effect_from_program p s0 =
     (let s = s0\<lparr>program := Some
                 \<lparr>uTime = 0, uColor = color p,
                  uResolution = (canvas_width s0, canvas_height s0,
                                 canvas_width s0 / canvas_height s0),
                  uMouse = (binary32 (fst (mousePos s0)), binary32 (snd (mousePos s0))),
                  uAmplitude = amplitude p, uSpeed = speed p\<rparr>\<rparr>;
          s = s\<lparr>animateId := None, lastFrameTime := 0\<rparr>;
          (i, s) = requestAnimationFrame s;
          s = s\<lparr>animateId := Some i\<rparr>;
          s = log_call AppendChild (s\<lparr>canvas_parent := Some Container\<rparr>);
          s = s\<lparr>lastMouseUpdate := 0\<rparr>
      in if mouseReact p then log_call AddMouseListener (s\<lparr>mouse_listener := True\<rparr>)
         else s)"

definition effect :: "props \<Rightarrow> state \<Rightarrow> state" where
  "effect p s =
     (if \<not> ctn_present (env s) then s
      else effect_from_program p (resize (effect_setup s)))"

text \<open>The cleanup returned by the effect, lines 180-191.\<close>

definition cleanup :: "props \<Rightarrow> state \<Rightarrow> error + state" where
  "cleanup p s0 =
     (let s = cancelAnimationFrame (animateId s0) s0;
          s = clearTimeout (resizeTimeout s) s;
          s = log_call RemoveResizeListener (s\<lparr>resize_listener := False\<rparr>);
          s = (if mouseReact p
               then log_call RemoveMouseListener (s\<lparr>mouse_listener := False\<rparr>)
               else s)
      in case canvas_parent s of
           Some Elsewhere \<Rightarrow> Inl NotFoundError
         | r \<Rightarrow>
             let s = (if r = Some Container
                      then log_call RemoveChild (s\<lparr>canvas_parent := None\<rparr>)
                      else s)
             in Inr (if lose_context_ext (env s)
                     then log_call LoseContext (s\<lparr>context_lost := True\<rparr>)
                     else s))"

section \<open>The browser as a source of events\<close>

text \<open>
  Between two runs of the component's code the browser may: run the callback of a pending
  animation-frame request (with the frame's timestamp), dispatch a \<open>resize\<close> event on
  the window, let a pending timeout expire, dispatch a \<open>mousemove\<close> on the container
  (\<open>performance.now()\<close> and the client coordinates given), lay the container out
  anew, or see the canvas taken out of the document by other code. A callback runs only if it is still registered or pending; a request or a timeout
  is consumed when its callback runs.
\<close>

datatype event =
    AnimationFrame nat real
  | WindowResize
  | TimeoutFires nat
  | MouseMove real real real
  | Layout real real real real real real
  | DetachCanvas

fun step :: "event \<Rightarrow> state \<Rightarrow> error + state" where
  "step (AnimationFrame i t) s =
     (if i \<in> pending_frames s
      then update t (s\<lparr>pending_frames := pending_frames s - {i}\<rparr>)
      else Inr s)"
| "step WindowResize s =
     Inr (if resize_listener s then handleResize s else s)"
| "step (TimeoutFires i) s =
     Inr (if i \<in> pending_timers s
          then resize (s\<lparr>pending_timers := pending_timers s - {i}\<rparr>)
          else s)"
| "step (MouseMove now clientX clientY) s =
     Inr (if mouse_listener s then handleMouseMove now clientX clientY s else s)"
| "step (Layout w h l t rw rh) s =
     Inr (s\<lparr>env := (env s)\<lparr>offsetWidth := w, offsetHeight := h, rect_left := l,
                            rect_top := t, rect_width := rw, rect_height := rh\<rparr>\<rparr>)"
| "step DetachCanvas s = Inr (s\<lparr>canvas_parent := None\<rparr>)"

fun run :: "event list \<Rightarrow> state \<Rightarrow> error + state" where
  "run [] s = Inr s"
| "run (e # es) s = (case step e s of Inl err \<Rightarrow> Inl err | Inr s' \<Rightarrow> run es s')"

text \<open>
  A run of \<open>update\<close> over the timestamps of successive callbacks. The gate of \<open>update\<close>
  does not read the set of pending requests, whose bookkeeping is \<open>step\<close>'s.
\<close>

fun updates :: "real list \<Rightarrow> state \<Rightarrow> error + state" where
  "updates [] s = Inr s"
| "updates (t # ts) s = (case update t s of Inl err \<Rightarrow> Inl err | Inr s' \<Rightarrow> updates ts s')"

text \<open>
  The life of a mounted component (line 192): a list of sessions, each with its props and
  the events the browser sends during it. The effect runs at the mount and again
  whenever \<open>color\<close>, \<open>speed\<close>, \<open>amplitude\<close> or \<open>mouseReact\<close> has changed; before it
  runs again React runs the cleanup that the previous run returned (none if that run
  left at line 80). The refs of lines 76-77 belong to the component, not to the effect:
  every session works on the same two. The result is the state in the last session.
\<close>

fun lifetime :: "state \<Rightarrow> (props \<times> event list) list \<Rightarrow> error + state" where
  "lifetime s [] = Inr s"
| "lifetime s ((p, evs) # later) =
     (case run evs (effect p s) of
        Inl err \<Rightarrow> Inl err
      | Inr s1 \<Rightarrow>
          (if later = [] then Inr s1
           else if \<not> ctn_present (env s) then lifetime s1 later
           else case cleanup p s1 of
                  Inl err \<Rightarrow> Inl err
                | Inr s2 \<Rightarrow> lifetime s2 later))"

text \<open>
  The scenario of the specification: an 800 by 600 container at the origin, pixel ratio 1,
  a renderer that sizes the canvas as asked, mounted with the default props.
\<close>

definition demo_host :: host where
  "demo_host =
     \<lparr>ctn_present = True, offsetWidth = 800, offsetHeight = 600,
      rect_left = 0, rect_top = 0, rect_width = 800, rect_height = 600,
      devicePixelRatio = 1, lose_context_ext = True,
      renderer_setSize = (\<lambda>d w h. (w, h))\<rparr>"

definition mounted :: state where
  "mounted = effect default_props (first_render demo_host)"

text \<open>
  A life of two sessions in that container: mounted with the default props, the pointer
  moves to (200, 450), which is (0.25, 0.25) of the box; then \<open>mouseReact\<close> becomes false,
  the effect runs again, and the browser delivers the frame of 1000 ms.
\<close>

definition pointer_then_static :: "(props \<times> event list) list" where
  "pointer_then_static =
     [(default_props, [MouseMove 1000 200 450]),
      (default_props\<lparr>mouseReact := False\<rparr>, [AnimationFrame 2 1000])]"

text \<open>
  The renderer of the library as the component uses it: \<open>setSize\<close> gives the canvas the
  requested size times the pixel ratio, and the \<open>width\<close> and \<open>height\<close> attributes of a
  canvas hold whole numbers (here for sizes that are not negative). The scenario on a
  display of pixel ratio 2, and on a container of 801 by 601.
\<close>

definition ogl_setSize :: "real \<Rightarrow> real \<Rightarrow> real \<Rightarrow> real \<times> real" where
  "ogl_setSize d w h = (of_int \<lfloor>w * d\<rfloor>, of_int \<lfloor>h * d\<rfloor>)"

definition hidpi_host :: host where
  "hidpi_host = demo_host\<lparr>devicePixelRatio := 2, renderer_setSize := ogl_setSize\<rparr>"

definition odd_host :: host where
  "odd_host = demo_host\<lparr>offsetWidth := 801, offsetHeight := 601, rect_width := 801,
                         rect_height := 601, renderer_setSize := ogl_setSize\<rparr>"

section \<open>Notions used to state the properties\<close>

text \<open>
  What a callback that only reschedules itself does to the state: a new request is
  pending, its handle is in \<open>animateId\<close>, and nothing else has changed.
\<close>

definition reschedule :: "state \<Rightarrow> state" where
  "reschedule s =
     s\<lparr>animateId := Some (next_handle s),
       pending_frames := insert (next_handle s) (pending_frames s),
       next_handle := Suc (next_handle s),
       calls := calls s @ [RequestAnimationFrame (next_handle s)]\<rparr>"

text \<open>The timestamps, among those of successive callbacks, at which a draw call was issued.\<close>

fun admitted :: "real list \<Rightarrow> state \<Rightarrow> real list" where
  "admitted [] s = []"
| "admitted (t # ts) s =
     (case update t s of
        Inl err \<Rightarrow> []
      | Inr s' \<Rightarrow>
          (if length (drawn s') = Suc (length (drawn s)) then [t] else []) @ admitted ts s')"

text \<open>The resources of a session, and the calls that acquire and release them.\<close>

datatype resource =
  GLContext | ResizeListener | AnimationCallback | ResizeTimer | CanvasNode | PointerListener

fun acquires :: "hostcall \<Rightarrow> resource option" where
  "acquires NewRenderer = Some GLContext"
| "acquires AddResizeListener = Some ResizeListener"
| "acquires (RequestAnimationFrame i) = Some AnimationCallback"
| "acquires (SetTimeout i) = Some ResizeTimer"
| "acquires AppendChild = Some CanvasNode"
| "acquires AddMouseListener = Some PointerListener"
| "acquires c = None"

fun releases :: "hostcall \<Rightarrow> resource option" where
  "releases LoseContext = Some GLContext"
| "releases RemoveResizeListener = Some ResizeListener"
| "releases (CancelAnimationFrame i) = Some AnimationCallback"
| "releases (ClearTimeout i) = Some ResizeTimer"
| "releases RemoveChild = Some CanvasNode"
| "releases RemoveMouseListener = Some PointerListener"
| "releases c = None"

definition acquisition_order :: "hostcall list \<Rightarrow> resource list" where
  "acquisition_order cs = List.map_filter acquires cs"

definition release_order :: "hostcall list \<Rightarrow> resource list" where
  "release_order cs = List.map_filter releases cs"

text \<open>Nothing of the session is left in the browser.\<close>

definition quiescent :: "state \<Rightarrow> bool" where
  "quiescent s \<longleftrightarrow>
     pending_frames s = {} \<and> pending_timers s = {} \<and>
     \<not> resize_listener s \<and> \<not> mouse_listener s \<and> canvas_parent s = None"

text \<open>
  The invariant of a running session: the only pending request and the only pending
  timeout are the ones whose handles the closure holds, the pointer listener is there
  only if \<open>mouseReact\<close> asked for it, the canvas is in the container or nowhere, and the
  program exists with \<open>uResolution\<close> as computed from the canvas.
\<close>

definition running :: "props \<Rightarrow> state \<Rightarrow> bool" where
  "running p s \<longleftrightarrow>
     pending_frames s \<subseteq> set_option (animateId s) \<and>
     pending_timers s \<subseteq> set_option (resizeTimeout s) \<and>
     (mouse_listener s \<longrightarrow> mouseReact p) \<and>
     canvas_parent s \<noteq> Some Elsewhere \<and>
     (case program s of
        None \<Rightarrow> False
      | Some u \<Rightarrow>
          uResolution u = (canvas_width s, canvas_height s, canvas_width s / canvas_height s))"

text \<open>The pointer has never left the centre: refs, uniform and every frame drawn.\<close>

definition centred :: "state \<Rightarrow> bool" where
  "centred s \<longleftrightarrow>
     \<not> mouse_listener s \<and> AddMouseListener \<notin> set (calls s) \<and>
     mousePos s = (0.5, 0.5) \<and> targetMousePos s = (0.5, 0.5) \<and>
     (case program s of None \<Rightarrow> False | Some u \<Rightarrow> uMouse u = (0.5, 0.5)) \<and>
     list_all (\<lambda>u. uMouse u = (0.5, 0.5)) (drawn s)"

text \<open>
  Before a session (at the first render, or after the cleanup of the previous session):
  nothing registered or pending, the container there, both refs at the centre, no pointer
  listener ever asked for and no frame drawn with another pointer.
\<close>

definition idle_centred :: "state \<Rightarrow> bool" where
  "idle_centred s \<longleftrightarrow>
     quiescent s \<and> ctn_present (env s) \<and> AddMouseListener \<notin> set (calls s) \<and>
     mousePos s = (0.5, 0.5) \<and> targetMousePos s = (0.5, 0.5) \<and>
     list_all (\<lambda>u. uMouse u = (0.5, 0.5)) (drawn s)"

text \<open>The calls that a cleanup adds to the log (none if it fails).\<close>

definition cleanup_calls :: "props \<Rightarrow> state \<Rightarrow> hostcall list" where
  "cleanup_calls p s =
     (case cleanup p s of
        Inl err \<Rightarrow> []
      | Inr s' \<Rightarrow> drop (length (calls s)) (calls s'))"

section \<open>The frame gate of \<open>update\<close>\<close>

lemmas rounding_defs =
  binary64_def binary32_def round_binary_def ilog2_def round_even_def bits.simps Let_def

lemma js_rem_floor:
  assumes "0 < b" "0 \<le> a"
  shows "js_rem a b = a - b * of_int \<lfloor>a / b\<rfloor>"
  using assms by (simp add: js_rem_def js_trunc_def)

lemma FRAME_DURATION_eq: "FRAME_DURATION = 4691249611844267 / 140737488355328"
  by (simp add: FRAME_DURATION_def TARGET_FPS_def rounding_defs)

lemma FRAME_DURATION_pos: "0 < FRAME_DURATION"
  by (simp add: FRAME_DURATION_eq)

lemma binary32_half [simp]: "binary32 (1 / 2) = 1 / 2"
  by (simp add: rounding_defs)

lemma binary64_0 [simp]: "binary64 0 = 0"
  by (simp add: binary64_def round_binary_def)

lemma mounted_eval:
  "mounted =
     \<lparr>mousePos = (1 / 2, 1 / 2), targetMousePos = (1 / 2, 1 / 2), dpr = 1,
      program = Some \<lparr>uTime = 0, uColor = (1, 1, 1), uResolution = (400, 300, 4 / 3),
                      uMouse = (1 / 2, 1 / 2), uAmplitude = 1 / 10, uSpeed = 1\<rparr>,
      resizeTimeout = None, animateId = Some 1, lastFrameTime = 0, lastMouseUpdate = 0,
      canvas_width = 400, canvas_height = 300, canvas_style = (''100%'', ''100%''),
      canvas_parent = Some Container, context_lost = False,
      env = demo_host, pending_frames = {1}, pending_timers = {},
      resize_listener = True, mouse_listener = True, next_handle = 2,
      drawn = [],
      calls = [NewRenderer, AddResizeListener, RequestAnimationFrame 1, AppendChild,
               AddMouseListener]\<rparr>"
  by (simp add: mounted_def effect_def effect_from_program_def effect_setup_def resize_def
      first_render_def demo_host_def default_props_def log_call_def
      requestAnimationFrame_def Let_def)

text \<open>The two outcomes of one callback, for a state whose program exists.\<close>

lemma update_skip:
  assumes "binary64 (t - lastFrameTime s) < FRAME_DURATION"
  shows "update t s = Inr (reschedule s)"
  using assms
  by (simp add: update_def requestAnimationFrame_def log_call_def reschedule_def Let_def)

lemma update_admit:
  assumes "\<not> binary64 (t - lastFrameTime s) < FRAME_DURATION" and "program s = Some u"
  shows "update t s =
           Inr ((reschedule s)
                 \<lparr>lastFrameTime :=
                    binary64 (t - js_rem (binary64 (t - lastFrameTime s)) FRAME_DURATION),
                  mousePos :=
                    (fst (mousePos s) + (fst (targetMousePos s) - fst (mousePos s)) * 0.1,
                     snd (mousePos s) + (snd (targetMousePos s) - snd (mousePos s)) * 0.1),
                  program := Some (u\<lparr>uMouse :=
                    (binary32
                       (fst (mousePos s) + (fst (targetMousePos s) - fst (mousePos s)) * 0.1),
                     binary32
                       (snd (mousePos s) + (snd (targetMousePos s) - snd (mousePos s)) * 0.1)),
                    uTime := t * 0.001\<rparr>),
                  drawn := drawn s @ [u\<lparr>uMouse :=
                    (binary32
                       (fst (mousePos s) + (fst (targetMousePos s) - fst (mousePos s)) * 0.1),
                     binary32
                       (snd (mousePos s) + (snd (targetMousePos s) - snd (mousePos s)) * 0.1)),
                    uTime := t * 0.001\<rparr>]\<rparr>)"
  using assms
  by (simp add: update_def requestAnimationFrame_def log_call_def reschedule_def render_def
      Let_def)

lemma update_no_program:
  assumes "\<not> binary64 (t - lastFrameTime s) < FRAME_DURATION" and "program s = None"
  shows "update t s = Inl TypeError"
  using assms
  by (simp add: update_def requestAnimationFrame_def log_call_def Let_def)

lemma reschedule_fields:
  "lastFrameTime (reschedule s) = lastFrameTime s"
  "program (reschedule s) = program s"
  "drawn (reschedule s) = drawn s"
  "mousePos (reschedule s) = mousePos s"
  "targetMousePos (reschedule s) = targetMousePos s"
  by (simp_all add: reschedule_def)

text \<open>
  Claim C1. \<open>FRAME_DURATION\<close> is the double nearest to 1000 / 30. A callback \<open>update t\<close>,
  run in a state whose program exists, does one of two things. If
  \<open>t - lastFrameTime\<close>, as a double, is less than \<open>FRAME_DURATION\<close>, it only reschedules
  itself: the result is \<open>reschedule s\<close>, with no draw call and no other change. Otherwise
  the frame is admitted: \<open>lastFrameTime\<close> becomes
  \<open>t - ((t - lastFrameTime) mod FRAME_DURATION)\<close> (the two differences as doubles, the
  remainder written with the floor of the quotient), the pointer is moved by the
  smoothing step, \<open>uMouse\<close> is the new pointer as stored in the \<open>Float32Array\<close> and
  \<open>uTime\<close> is \<open>t / 1000\<close>, exactly one draw call is appended, which reads these uniforms,
  and apart from the rescheduling nothing else changes.
\<close>

theorem update_frame_admission:
  assumes "program s = Some u"
  shows "FRAME_DURATION = binary64 (1000 / 30) \<and>
         (binary64 (t - lastFrameTime s) < FRAME_DURATION \<longrightarrow>
            update t s = Inr (reschedule s)) \<and>
         (\<not> binary64 (t - lastFrameTime s) < FRAME_DURATION \<longrightarrow>
            (\<exists>s' u'. update t s = Inr s' \<and>
               lastFrameTime s' =
                 binary64 (t - (binary64 (t - lastFrameTime s)
                        - FRAME_DURATION
                          * of_int \<lfloor>binary64 (t - lastFrameTime s) / FRAME_DURATION\<rfloor>)) \<and>
               mousePos s' =
                 (fst (mousePos s) + (fst (targetMousePos s) - fst (mousePos s)) * 0.1,
                  snd (mousePos s) + (snd (targetMousePos s) - snd (mousePos s)) * 0.1) \<and>
               u' = u\<lparr>uMouse := (binary32 (fst (mousePos s')), binary32 (snd (mousePos s'))),
                       uTime := t / 1000\<rparr> \<and>
               drawn s' = drawn s @ [u'] \<and>
               s' = (reschedule s)\<lparr>lastFrameTime := lastFrameTime s', mousePos := mousePos s',
                                    program := Some u', drawn := drawn s @ [u']\<rparr>))"
proof (intro conjI impI)
  show "FRAME_DURATION = binary64 (1000 / 30)"
    by (simp add: FRAME_DURATION_def TARGET_FPS_def)
next
  assume "binary64 (t - lastFrameTime s) < FRAME_DURATION"
  then show "update t s = Inr (reschedule s)"
    by (rule update_skip)
next
  assume adm: "\<not> binary64 (t - lastFrameTime s) < FRAME_DURATION"
  then have "0 \<le> binary64 (t - lastFrameTime s)"
    using FRAME_DURATION_pos by simp
  with FRAME_DURATION_pos
  have rem: "js_rem (binary64 (t - lastFrameTime s)) FRAME_DURATION =
      binary64 (t - lastFrameTime s)
        - FRAME_DURATION * of_int \<lfloor>binary64 (t - lastFrameTime s) / FRAME_DURATION\<rfloor>"
    by (rule js_rem_floor)
  from update_admit [OF adm assms]
  show "\<exists>s' u'. update t s = Inr s' \<and>
               lastFrameTime s' =
                 binary64 (t - (binary64 (t - lastFrameTime s)
                        - FRAME_DURATION
                          * of_int \<lfloor>binary64 (t - lastFrameTime s) / FRAME_DURATION\<rfloor>)) \<and>
               mousePos s' =
                 (fst (mousePos s) + (fst (targetMousePos s) - fst (mousePos s)) * 0.1,
                  snd (mousePos s) + (snd (targetMousePos s) - snd (mousePos s)) * 0.1) \<and>
               u' = u\<lparr>uMouse := (binary32 (fst (mousePos s')), binary32 (snd (mousePos s'))),
                       uTime := t / 1000\<rparr> \<and>
               drawn s' = drawn s @ [u'] \<and>
               s' = (reschedule s)\<lparr>lastFrameTime := lastFrameTime s', mousePos := mousePos s',
                                    program := Some u', drawn := drawn s @ [u']\<rparr>"
    unfolding rem by (simp add: reschedule_def)
qed

text \<open>
  In the mounted scenario: the callback at 10 ms is skipped; one at 1000 ms is admitted,
  draws with \<open>uTime = 1\<close> and leaves \<open>lastFrameTime\<close> at the double 966.6666666666667
  (1000 is less than 30 times the double frame duration); one at 50 ms is admitted and
  leaves \<open>lastFrameTime\<close> at the frame duration.
\<close>

theorem update_frame_admission_witness:
  "program mounted = Some \<lparr>uTime = 0, uColor = (1, 1, 1), uResolution = (400, 300, 4 / 3),
                            uMouse = (1 / 2, 1 / 2), uAmplitude = 1 / 10, uSpeed = 1\<rparr> \<and>
   binary64 (10 - lastFrameTime mounted) < FRAME_DURATION \<and>
   update 10 mounted = Inr (reschedule mounted) \<and>
   drawn (reschedule mounted) = [] \<and>
   \<not> binary64 (1000 - lastFrameTime mounted) < FRAME_DURATION \<and>
   (\<exists>s'. update 1000 mounted = Inr s' \<and>
      lastFrameTime s' = 4251444960733867 / 4398046511104 \<and>
      mousePos s' = (1 / 2, 1 / 2) \<and>
      drawn s' = [\<lparr>uTime = 1, uColor = (1, 1, 1), uResolution = (400, 300, 4 / 3),
                   uMouse = (1 / 2, 1 / 2), uAmplitude = 1 / 10, uSpeed = 1\<rparr>]) \<and>
   \<not> binary64 (50 - lastFrameTime mounted) < FRAME_DURATION \<and>
   (\<exists>s'. update 50 mounted = Inr s' \<and> lastFrameTime s' = FRAME_DURATION \<and>
      length (drawn s') = 1)"
proof -
  let ?u = "\<lparr>uTime = 0, uColor = (1, 1, 1), uResolution = (400, 300, 4 / 3),
             uMouse = (1 / 2, 1 / 2), uAmplitude = 1 / 10, uSpeed = 1\<rparr>"
  have p: "program mounted = Some ?u" by (simp add: mounted_eval)
  have l: "lastFrameTime mounted = 0" by (simp add: mounted_eval)
  have m: "mousePos mounted = (1 / 2, 1 / 2)" "targetMousePos mounted = (1 / 2, 1 / 2)"
    "drawn mounted = []"
    by (simp_all add: mounted_eval)
  have d: "drawn (reschedule mounted) = []" by (simp add: reschedule_def m)
  have e10: "binary64 (10 - lastFrameTime mounted) = 10"
    and e1000: "binary64 (1000 - lastFrameTime mounted) = 1000"
    and e50: "binary64 (50 - lastFrameTime mounted) = 50"
    unfolding l by (simp_all add: rounding_defs)
  have g10: "binary64 (10 - lastFrameTime mounted) < FRAME_DURATION"
    and g1000: "\<not> binary64 (1000 - lastFrameTime mounted) < FRAME_DURATION"
    and g50: "\<not> binary64 (50 - lastFrameTime mounted) < FRAME_DURATION"
    unfolding e10 e1000 e50 by (simp_all add: FRAME_DURATION_eq)
  have f1000: "\<lfloor>1000 / FRAME_DURATION\<rfloor> = 29" and f50: "\<lfloor>50 / FRAME_DURATION\<rfloor> = 1"
    by (simp_all add: FRAME_DURATION_eq)
  have r1000: "binary64 (1000 - (1000 - FRAME_DURATION * of_int 29)) =
      4251444960733867 / 4398046511104"
    by (simp add: FRAME_DURATION_eq rounding_defs)
  have r50: "binary64 (50 - (50 - FRAME_DURATION * of_int 1)) = FRAME_DURATION"
    by (simp add: FRAME_DURATION_eq rounding_defs)
  from update_frame_admission [OF p, of 10] g10
  have skip: "update 10 mounted = Inr (reschedule mounted)" by blast
  from update_frame_admission [OF p, of 1000] g1000
  obtain s' u' where
    "update 1000 mounted = Inr s'"
    "lastFrameTime s' =
       binary64 (1000 - (binary64 (1000 - lastFrameTime mounted)
          - FRAME_DURATION
            * of_int \<lfloor>binary64 (1000 - lastFrameTime mounted) / FRAME_DURATION\<rfloor>))"
    "mousePos s' =
       (fst (mousePos mounted) + (fst (targetMousePos mounted) - fst (mousePos mounted)) * 0.1,
        snd (mousePos mounted) + (snd (targetMousePos mounted) - snd (mousePos mounted)) * 0.1)"
    "u' = ?u\<lparr>uMouse := (binary32 (fst (mousePos s')), binary32 (snd (mousePos s'))),
              uTime := 1000 / 1000\<rparr>"
    "drawn s' = drawn mounted @ [u']"
    by blast
  then have a: "\<exists>s'. update 1000 mounted = Inr s' \<and>
      lastFrameTime s' = 4251444960733867 / 4398046511104 \<and>
      mousePos s' = (1 / 2, 1 / 2) \<and>
      drawn s' = [\<lparr>uTime = 1, uColor = (1, 1, 1), uResolution = (400, 300, 4 / 3),
                   uMouse = (1 / 2, 1 / 2), uAmplitude = 1 / 10, uSpeed = 1\<rparr>]"
    unfolding e1000 f1000 r1000 m by simp
  from update_frame_admission [OF p, of 50] g50
  obtain s'' u'' where
    "update 50 mounted = Inr s''"
    "lastFrameTime s'' =
       binary64 (50 - (binary64 (50 - lastFrameTime mounted)
          - FRAME_DURATION
            * of_int \<lfloor>binary64 (50 - lastFrameTime mounted) / FRAME_DURATION\<rfloor>))"
    "drawn s'' = drawn mounted @ [u'']"
    by blast
  then have b: "\<exists>s'. update 50 mounted = Inr s' \<and> lastFrameTime s' = FRAME_DURATION \<and>
      length (drawn s') = 1"
    unfolding e50 f50 r50 m by simp
  from p g10 skip d g1000 a g50 b show ?thesis by (intro conjI)
qed

section \<open>Admitted frames\<close>









text \<open>
  The gate is the doubles': 100 is less than three times the double frame duration and
  1000 less than thirty times, so the frames at 100 and at 1000 ms leave \<open>lastFrameTime\<close>
  one interval earlier than exact arithmetic would, and the callbacks at 110 and at
  1020 ms are admitted as well.
\<close>

lemma frames_after_multiple:
  "admitted [100, 110] mounted = [100, 110] \<and>
   admitted [1000, 1020] mounted = [1000, 1020] \<and>
   map_sum id lastFrameTime (update 100 mounted) = Inr (4691249611844267 / 70368744177664) \<and>
   map_sum id lastFrameTime (update 1000 mounted) = Inr (4251444960733867 / 4398046511104)"
  by (simp add: mounted_eval update_def render_def requestAnimationFrame_def log_call_def
      FRAME_DURATION_eq js_rem_floor rounding_defs Let_def)

section \<open>Pointer smoothing\<close>

lemma update_pointer:
  assumes "update t s = Inr s'"
  shows "targetMousePos s' = targetMousePos s \<and>
         ((drawn s' = drawn s \<and> mousePos s' = mousePos s) \<or>
          (length (drawn s') = Suc (length (drawn s)) \<and>
           mousePos s' =
             (fst (mousePos s) + (fst (targetMousePos s) - fst (mousePos s)) * 0.1,
              snd (mousePos s) + (snd (targetMousePos s) - snd (mousePos s)) * 0.1)))"
proof (cases "binary64 (t - lastFrameTime s) < FRAME_DURATION")
  case True
  with assms show ?thesis by (auto simp: update_skip reschedule_fields)
next
  case False
  show ?thesis
  proof (cases "program s")
    case None
    with False assms show ?thesis by (simp add: update_no_program)
  next
    case (Some u)
    from update_admit [OF False Some] assms show ?thesis
      by (auto simp: reschedule_fields)
  qed
qed

lemma lerp_distance:
  fixes c g :: real
  shows "c + (g - c) * 0.1 - g = (9 / 10) * (c - g)"
  by argo

lemma updates_smoothing:
  assumes "updates ts s = Inr s'"
  shows "length (drawn s) \<le> length (drawn s') \<and>
         targetMousePos s' = targetMousePos s \<and>
         fst (mousePos s') - fst (targetMousePos s) =
           (9 / 10) ^ (length (drawn s') - length (drawn s))
             * (fst (mousePos s) - fst (targetMousePos s)) \<and>
         snd (mousePos s') - snd (targetMousePos s) =
           (9 / 10) ^ (length (drawn s') - length (drawn s))
             * (snd (mousePos s) - snd (targetMousePos s))"
  using assms
proof (induction ts arbitrary: s)
  case Nil
  then show ?case by simp
next
  case (Cons t ts)
  from Cons.prems obtain s1 where u: "update t s = Inr s1" and r: "updates ts s1 = Inr s'"
    by (auto split: sum.splits)
  note ih = Cons.IH [OF r]
  from update_pointer [OF u] have tg: "targetMousePos s1 = targetMousePos s" by simp
  from update_pointer [OF u] consider
      (skip) "drawn s1 = drawn s" "mousePos s1 = mousePos s"
    | (admit) "length (drawn s1) = Suc (length (drawn s))"
        "mousePos s1 =
           (fst (mousePos s) + (fst (targetMousePos s) - fst (mousePos s)) * 0.1,
            snd (mousePos s) + (snd (targetMousePos s) - snd (mousePos s)) * 0.1)"
    by blast
  then show ?case
  proof cases
    case skip
    with ih tg show ?thesis by simp
  next
    case admit
    from ih admit(1) have le: "Suc (length (drawn s)) \<le> length (drawn s')" by simp
    then have n: "length (drawn s') - length (drawn s) =
        Suc (length (drawn s') - length (drawn s1))"
      using admit(1) by simp
    have x: "fst (mousePos s1) - fst (targetMousePos s) =
        (9 / 10) * (fst (mousePos s) - fst (targetMousePos s))"
      and y: "snd (mousePos s1) - snd (targetMousePos s) =
        (9 / 10) * (snd (mousePos s) - snd (targetMousePos s))"
      by (simp_all only: admit(2) fst_conv snd_conv lerp_distance)
    from ih show ?thesis
      unfolding tg n x y using le by simp
  qed
qed

lemma pow_le_eps:
  fixes \<epsilon> D :: real
  assumes "0 < \<epsilon>" and "0 < D" and "ln (D / \<epsilon>) / ln (10 / 9) \<le> real n"
  shows "(9 / 10) ^ n * D \<le> \<epsilon>"
proof -
  have l: "0 < ln (10 / 9 :: real)" by simp
  from assms(3) l have "ln (D / \<epsilon>) \<le> real n * ln (10 / 9)"
    by (simp add: pos_divide_le_eq)
  then have "exp (ln (D / \<epsilon>)) \<le> exp (real n * ln (10 / 9))"
    by simp
  moreover have "exp (ln (D / \<epsilon>)) = D / \<epsilon>"
    using assms by simp
  moreover have "exp (real n * ln (10 / 9 :: real)) = (10 / 9) ^ n"
    by (simp add: exp_of_nat_mult)
  ultimately have "D / \<epsilon> \<le> (10 / 9) ^ n" by simp
  then have "D \<le> (10 / 9) ^ n * \<epsilon>"
    using assms(1) by (simp add: pos_divide_le_eq)
  then have "(9 / 10) ^ n * D \<le> (9 / 10) ^ n * ((10 / 9) ^ n * \<epsilon>)"
    by (intro mult_left_mono) simp_all
  also have "\<dots> = ((9 / 10) * (10 / 9)) ^ n * \<epsilon>"
    by (simp only: mult.assoc [symmetric] power_mult_distrib [symmetric])
  also have "\<dots> = \<epsilon>" by simp
  finally show ?thesis .
qed

lemma pow_66: "(9 / 10 :: real) ^ 66 < 1 / 1000"
  by (simp add: power_divide)

lemma shrink_facts:
  fixes c c0 g :: real
  assumes "c - g = (9 / 10) ^ n * (c0 - g)"
  shows "\<bar>c - g\<bar> = (9 / 10) ^ n * \<bar>c0 - g\<bar>"
    and "c0 \<le> g \<Longrightarrow> c0 \<le> c \<and> c \<le> g"
    and "g \<le> c0 \<Longrightarrow> g \<le> c \<and> c \<le> c0"
    and "0 < \<epsilon> \<Longrightarrow> 0 < D \<Longrightarrow> \<bar>c0 - g\<bar> \<le> D \<Longrightarrow> ln (D / \<epsilon>) / ln (10 / 9) \<le> real n
         \<Longrightarrow> \<bar>c - g\<bar> \<le> \<epsilon>"
    and "\<bar>c0 - g\<bar> \<le> 1 \<Longrightarrow> 66 \<le> n \<Longrightarrow> \<bar>c - g\<bar> < 1 / 1000"
proof -
  let ?q = "(9 / 10 :: real) ^ n"
  have q0: "0 < ?q" by simp
  have q1: "?q \<le> 1" by (simp add: power_le_one)
  show a: "\<bar>c - g\<bar> = ?q * \<bar>c0 - g\<bar>"
    by (simp add: assms abs_mult)
  {
    assume h: "c0 \<le> g"
    then have "c0 - g \<le> 0" by simp
    then have "?q * (c0 - g) \<le> 0" using q0 by (simp add: mult_le_0_iff)
    moreover have "1 * (c0 - g) \<le> ?q * (c0 - g)"
      using q1 \<open>c0 - g \<le> 0\<close> by (rule mult_right_mono_neg)
    ultimately show "c0 \<le> c \<and> c \<le> g" using assms by simp
  }
  {
    assume h: "g \<le> c0"
    then have "0 \<le> c0 - g" by simp
    then have "0 \<le> ?q * (c0 - g)" using q0 by simp
    moreover have "?q * (c0 - g) \<le> 1 * (c0 - g)"
      using q1 \<open>0 \<le> c0 - g\<close> by (rule mult_right_mono)
    ultimately show "g \<le> c \<and> c \<le> c0" using assms by simp
  }
  {
    assume h: "0 < \<epsilon>" "0 < D" "\<bar>c0 - g\<bar> \<le> D" "ln (D / \<epsilon>) / ln (10 / 9) \<le> real n"
    have "\<bar>c - g\<bar> \<le> ?q * D"
      unfolding a using h(3) q0 by simp
    also have "\<dots> \<le> \<epsilon>" using h(1,2,4) by (rule pow_le_eps)
    finally show "\<bar>c - g\<bar> \<le> \<epsilon>" .
  }
  {
    assume h: "\<bar>c0 - g\<bar> \<le> 1" "66 \<le> n"
    have "?q \<le> (9 / 10) ^ 66"
      using h(2) by (intro power_decreasing) simp_all
    then have "?q < 1 / 1000" using pow_66 by (rule le_less_trans)
    moreover have "\<bar>c - g\<bar> \<le> ?q * 1"
      unfolding a using h(1) q0 by (intro mult_left_mono) simp_all
    ultimately show "\<bar>c - g\<bar> < 1 / 1000" by simp
  }
qed

text \<open>
  Claim C3. Over any run of callbacks (nothing else happens in between, so the target is
  held constant), with \<open>n\<close> the number of admitted frames: an admitted frame moves the
  pointer by \<open>current += (target - current) * 0.1\<close> on each axis; the distance to the
  target on each axis is \<open>0.9 ^ n\<close> times the initial distance; the pointer stays between
  its initial position and the target (no overshoot); it is within \<open>\<epsilon>\<close> of the target as
  soon as \<open>n \<ge> ln (D / \<epsilon>) / ln (10 / 9)\<close>, where \<open>D\<close> bounds the initial distance; and
  within \<open>0.001\<close> after 66 admitted frames when the initial distance is at most 1.
\<close>

theorem smoothing_converges:
  assumes "updates ts s = Inr s'"
  shows
    "targetMousePos s' = targetMousePos s \<and>
     (\<forall>t s1. update t s = Inr s1 \<and> length (drawn s1) = Suc (length (drawn s)) \<longrightarrow>
        mousePos s1 =
          (fst (mousePos s) + (fst (targetMousePos s) - fst (mousePos s)) * 0.1,
           snd (mousePos s) + (snd (targetMousePos s) - snd (mousePos s)) * 0.1)) \<and>
     (let n = length (drawn s') - length (drawn s);
          g = targetMousePos s; c0 = mousePos s; c = mousePos s'
      in \<bar>fst c - fst g\<bar> = (9 / 10) ^ n * \<bar>fst c0 - fst g\<bar> \<and>
         \<bar>snd c - snd g\<bar> = (9 / 10) ^ n * \<bar>snd c0 - snd g\<bar> \<and>
         (fst c0 \<le> fst g \<longrightarrow> fst c0 \<le> fst c \<and> fst c \<le> fst g) \<and>
         (fst g \<le> fst c0 \<longrightarrow> fst g \<le> fst c \<and> fst c \<le> fst c0) \<and>
         (snd c0 \<le> snd g \<longrightarrow> snd c0 \<le> snd c \<and> snd c \<le> snd g) \<and>
         (snd g \<le> snd c0 \<longrightarrow> snd g \<le> snd c \<and> snd c \<le> snd c0) \<and>
         (\<forall>\<epsilon> D. 0 < \<epsilon> \<and> 0 < D \<and> \<bar>fst c0 - fst g\<bar> \<le> D \<and> \<bar>snd c0 - snd g\<bar> \<le> D \<and>
                ln (D / \<epsilon>) / ln (10 / 9) \<le> real n \<longrightarrow>
                \<bar>fst c - fst g\<bar> \<le> \<epsilon> \<and> \<bar>snd c - snd g\<bar> \<le> \<epsilon>) \<and>
         (\<bar>fst c0 - fst g\<bar> \<le> 1 \<and> \<bar>snd c0 - snd g\<bar> \<le> 1 \<and> 66 \<le> n \<longrightarrow>
            \<bar>fst c - fst g\<bar> < 1 / 1000 \<and> \<bar>snd c - snd g\<bar> < 1 / 1000))"
proof -
  define n where "n = length (drawn s') - length (drawn s)"
  from updates_smoothing [OF assms]
  have tg: "targetMousePos s' = targetMousePos s"
    and x: "fst (mousePos s') - fst (targetMousePos s) =
              (9 / 10) ^ n * (fst (mousePos s) - fst (targetMousePos s))"
    and y: "snd (mousePos s') - snd (targetMousePos s) =
              (9 / 10) ^ n * (snd (mousePos s) - snd (targetMousePos s))"
    unfolding n_def by simp_all
  have step: "\<forall>t s1. update t s = Inr s1 \<and> length (drawn s1) = Suc (length (drawn s)) \<longrightarrow>
        mousePos s1 =
          (fst (mousePos s) + (fst (targetMousePos s) - fst (mousePos s)) * 0.1,
           snd (mousePos s) + (snd (targetMousePos s) - snd (mousePos s)) * 0.1)"
  proof (intro allI impI)
    fix t s1
    assume h: "update t s = Inr s1 \<and> length (drawn s1) = Suc (length (drawn s))"
    then have "drawn s1 \<noteq> drawn s" by auto
    with update_pointer [of t s s1] h show "mousePos s1 =
          (fst (mousePos s) + (fst (targetMousePos s) - fst (mousePos s)) * 0.1,
           snd (mousePos s) + (snd (targetMousePos s) - snd (mousePos s)) * 0.1)"
      by blast
  qed
  note fx = shrink_facts [OF x]
  note fy = shrink_facts [OF y]
  show ?thesis
    unfolding Let_def n_def [symmetric]
    using tg step fx(1) fy(1) fx(2) fx(3) fy(2) fy(3) fx(4) fy(4) fx(5) fy(5)
    by blast
qed

text \<open>
  A pointer event at (200, 450) in the mounted scenario puts the target at (1/4, 1/4);
  two admitted frames later the pointer is at distance \<open>0.81 * 1/4\<close> from it.
\<close>

lemma pointed_eval:
  "handleMouseMove 1000 200 450 mounted =
     mounted\<lparr>lastMouseUpdate := 1000, targetMousePos := (1 / 4, 1 / 4)\<rparr>"
  by (simp add: handleMouseMove_def mounted_eval demo_host_def MOUSE_THROTTLE_def)

theorem smoothing_converges_witness:
  "\<exists>s'. updates [1010, 1050] (handleMouseMove 1000 200 450 mounted) = Inr s' \<and>
      length (drawn s') - length (drawn (handleMouseMove 1000 200 450 mounted)) = 2 \<and>
      mousePos (handleMouseMove 1000 200 450 mounted) = (1 / 2, 1 / 2) \<and>
      targetMousePos s' = (1 / 4, 1 / 4) \<and>
      \<bar>fst (mousePos s') - 1 / 4\<bar> = (9 / 10) ^ 2 * (1 / 4) \<and>
      \<bar>snd (mousePos s') - 1 / 4\<bar> = (9 / 10) ^ 2 * (1 / 4) \<and>
      1 / 4 \<le> fst (mousePos s') \<and> fst (mousePos s') \<le> 1 / 2"
proof -
  let ?s0 = "handleMouseMove 1000 200 450 mounted"
  have p0: "program ?s0 = Some \<lparr>uTime = 0, uColor = (1, 1, 1), uResolution = (400, 300, 4 / 3),
                            uMouse = (1 / 2, 1 / 2), uAmplitude = 1 / 10, uSpeed = 1\<rparr>"
    and l0: "lastFrameTime ?s0 = 0"
    and m0: "mousePos ?s0 = (1 / 2, 1 / 2)" "targetMousePos ?s0 = (1 / 4, 1 / 4)"
    by (simp_all add: pointed_eval) (simp_all add: mounted_eval)
  have e1: "binary64 (1010 - lastFrameTime ?s0) = 1010"
    unfolding l0 by (simp add: rounding_defs)
  have n1: "\<not> binary64 (1010 - lastFrameTime ?s0) < FRAME_DURATION"
    unfolding e1 by (simp add: FRAME_DURATION_eq)
  have r1: "binary64 (1010 - js_rem (binary64 (1010 - lastFrameTime ?s0)) FRAME_DURATION) =
      8796093022208001 / 8796093022208"
    unfolding e1
    by (simp add: js_rem_def js_trunc_def FRAME_DURATION_eq) (simp add: rounding_defs)
  from update_admit [OF n1 p0] r1
  obtain s1 where s1: "update 1010 ?s0 = Inr s1"
    "lastFrameTime s1 = 8796093022208001 / 8796093022208"
    "length (drawn s1) = Suc (length (drawn ?s0))" "program s1 \<noteq> None"
    by (simp add: reschedule_fields)
  from s1(4) obtain u1 where p1: "program s1 = Some u1" by blast
  have n2: "\<not> binary64 (1050 - lastFrameTime s1) < FRAME_DURATION"
    unfolding s1(2) by (simp add: FRAME_DURATION_eq rounding_defs)
  from update_admit [OF n2 p1]
  obtain s2 where s2: "update 1050 s1 = Inr s2" "length (drawn s2) = Suc (length (drawn s1))"
    by (simp add: reschedule_fields)
  have run: "updates [1010, 1050] ?s0 = Inr s2"
    by (simp add: s1 s2)
  have n: "length (drawn s2) - length (drawn ?s0) = 2"
    by (simp add: s1 s2)
  have ab: "\<bar>1 / 2 - 1 / 4 :: real\<bar> = 1 / 4" by simp
  from smoothing_converges [OF run]
  have a: "targetMousePos s2 = (1 / 4, 1 / 4)"
    and b: "\<bar>fst (mousePos s2) - 1 / 4\<bar> = (9 / 10) ^ 2 * \<bar>1 / 2 - 1 / 4\<bar>"
    and c: "\<bar>snd (mousePos s2) - 1 / 4\<bar> = (9 / 10) ^ 2 * \<bar>1 / 2 - 1 / 4\<bar>"
    and d: "(1 / 4 :: real) \<le> 1 / 2 \<longrightarrow> 1 / 4 \<le> fst (mousePos s2) \<and> fst (mousePos s2) \<le> 1 / 2"
    unfolding Let_def n m0 fst_conv snd_conv by blast+
  from d have "1 / 4 \<le> fst (mousePos s2) \<and> fst (mousePos s2) \<le> 1 / 2" by simp
  with a b c have "targetMousePos s2 = (1 / 4, 1 / 4) \<and>
      \<bar>fst (mousePos s2) - 1 / 4\<bar> = (9 / 10) ^ 2 * (1 / 4) \<and>
      \<bar>snd (mousePos s2) - 1 / 4\<bar> = (9 / 10) ^ 2 * (1 / 4) \<and>
      1 / 4 \<le> fst (mousePos s2) \<and> fst (mousePos s2) \<le> 1 / 2"
    unfolding ab by blast
  with run n m0 show ?thesis by blast
qed

section \<open>The pointer handler\<close>

lemma handleMouseMove_drop:
  assumes "now - lastMouseUpdate s < MOUSE_THROTTLE"
  shows "handleMouseMove now cx cy s = s"
  using assms by (simp add: handleMouseMove_def)

lemma handleMouseMove_accept:
  assumes "\<not> now - lastMouseUpdate s < MOUSE_THROTTLE"
  shows "handleMouseMove now cx cy s =
           s\<lparr>lastMouseUpdate := now,
             targetMousePos := ((cx - rect_left (env s)) / rect_width (env s),
                                1 - (cy - rect_top (env s)) / rect_height (env s))\<rparr>"
  using assms by (simp add: handleMouseMove_def Let_def)

text \<open>
  Claim C6. An event that arrives less than 50 ms after the last accepted one (whose time
  is \<open>lastMouseUpdate\<close>) leaves the state as it is: the target is unchanged and nothing is
  kept for later. An accepted event overwrites the target with its own coordinates and
  becomes the last accepted one. So, when a first event at \<open>t1\<close> is accepted, a second one
  10 ms later is dropped (the target is still that of the first) and a third one 60 ms
  after the first sets the target again.
\<close>

theorem pointer_throttle:
  "(now - lastMouseUpdate s < 50 \<longrightarrow> handleMouseMove now cx cy s = s) \<and>
   (\<not> now - lastMouseUpdate s < 50 \<longrightarrow>
      handleMouseMove now cx cy s =
        s\<lparr>lastMouseUpdate := now,
          targetMousePos := ((cx - rect_left (env s)) / rect_width (env s),
                             1 - (cy - rect_top (env s)) / rect_height (env s))\<rparr>) \<and>
   (\<not> t1 - lastMouseUpdate s < 50 \<longrightarrow>
      (let s1 = handleMouseMove t1 x1 y1 s;
           s2 = handleMouseMove (t1 + 10) x2 y2 s1;
           s3 = handleMouseMove (t1 + 60) x3 y3 s2
       in targetMousePos s1 = ((x1 - rect_left (env s)) / rect_width (env s),
                               1 - (y1 - rect_top (env s)) / rect_height (env s)) \<and>
          s2 = s1 \<and>
          targetMousePos s3 = ((x3 - rect_left (env s)) / rect_width (env s),
                               1 - (y3 - rect_top (env s)) / rect_height (env s)) \<and>
          lastMouseUpdate s3 = t1 + 60))"
proof (intro conjI impI)
  assume "now - lastMouseUpdate s < 50"
  then show "handleMouseMove now cx cy s = s"
    by (simp add: handleMouseMove_drop MOUSE_THROTTLE_def)
next
  assume "\<not> now - lastMouseUpdate s < 50"
  then show "handleMouseMove now cx cy s =
        s\<lparr>lastMouseUpdate := now,
          targetMousePos := ((cx - rect_left (env s)) / rect_width (env s),
                             1 - (cy - rect_top (env s)) / rect_height (env s))\<rparr>"
    by (simp add: handleMouseMove_accept MOUSE_THROTTLE_def)
next
  assume a: "\<not> t1 - lastMouseUpdate s < 50"
  define s1 where "s1 = handleMouseMove t1 x1 y1 s"
  have e1: "s1 = s\<lparr>lastMouseUpdate := t1,
          targetMousePos := ((x1 - rect_left (env s)) / rect_width (env s),
                             1 - (y1 - rect_top (env s)) / rect_height (env s))\<rparr>"
    unfolding s1_def using a by (simp add: handleMouseMove_accept MOUSE_THROTTLE_def)
  have l1: "lastMouseUpdate s1 = t1" and v1: "env s1 = env s"
    by (simp_all add: e1)
  have e2: "handleMouseMove (t1 + 10) x2 y2 s1 = s1"
    by (rule handleMouseMove_drop) (simp add: l1 MOUSE_THROTTLE_def)
  have "\<not> (t1 + 60) - lastMouseUpdate s1 < MOUSE_THROTTLE"
    by (simp add: l1 MOUSE_THROTTLE_def)
  then have e3: "handleMouseMove (t1 + 60) x3 y3 s1 =
      s1\<lparr>lastMouseUpdate := t1 + 60,
          targetMousePos := ((x3 - rect_left (env s1)) / rect_width (env s1),
                             1 - (y3 - rect_top (env s1)) / rect_height (env s1))\<rparr>"
    by (rule handleMouseMove_accept)
  show "let s1 = handleMouseMove t1 x1 y1 s;
           s2 = handleMouseMove (t1 + 10) x2 y2 s1;
           s3 = handleMouseMove (t1 + 60) x3 y3 s2
       in targetMousePos s1 = ((x1 - rect_left (env s)) / rect_width (env s),
                               1 - (y1 - rect_top (env s)) / rect_height (env s)) \<and>
          s2 = s1 \<and>
          targetMousePos s3 = ((x3 - rect_left (env s)) / rect_width (env s),
                               1 - (y3 - rect_top (env s)) / rect_height (env s)) \<and>
          lastMouseUpdate s3 = t1 + 60"
    unfolding Let_def s1_def [symmetric] e2
    by (simp add: e3 v1) (simp add: e1)
qed

text \<open>
  In the mounted scenario: events at 1000, 1010 and 1060 ms; the second is dropped, the
  target after it is that of the first, the third moves the target.
\<close>

theorem pointer_throttle_witness:
  "\<not> 1000 - lastMouseUpdate mounted < 50 \<and>
   targetMousePos (handleMouseMove 1000 200 450 mounted) = (1 / 4, 1 / 4) \<and>
   handleMouseMove 1010 400 300 (handleMouseMove 1000 200 450 mounted) =
     handleMouseMove 1000 200 450 mounted \<and>
   1010 - lastMouseUpdate (handleMouseMove 1000 200 450 mounted) < 50 \<and>
   targetMousePos (handleMouseMove 1060 600 150
     (handleMouseMove 1010 400 300 (handleMouseMove 1000 200 450 mounted))) = (3 / 4, 3 / 4)"
proof -
  have l: "lastMouseUpdate mounted = 0" and e: "env mounted = demo_host"
    by (simp_all add: mounted_eval)
  have a: "\<not> 1000 - lastMouseUpdate mounted < 50" by (simp add: l)
  have b: "1010 - lastMouseUpdate (handleMouseMove 1000 200 450 mounted) < 50"
    by (simp add: pointed_eval)
  from pointer_throttle [of 1000 mounted 200 450 1000 200 450 400 300 600 150] a
  have "let s1 = handleMouseMove 1000 200 450 mounted;
           s2 = handleMouseMove (1000 + 10) 400 300 s1;
           s3 = handleMouseMove (1000 + 60) 600 150 s2
       in targetMousePos s1 = ((200 - rect_left (env mounted)) / rect_width (env mounted),
                               1 - (450 - rect_top (env mounted)) / rect_height (env mounted)) \<and>
          s2 = s1 \<and>
          targetMousePos s3 = ((600 - rect_left (env mounted)) / rect_width (env mounted),
                               1 - (150 - rect_top (env mounted)) / rect_height (env mounted)) \<and>
          lastMouseUpdate s3 = 1000 + 60"
    by blast
  then have A: "targetMousePos (handleMouseMove 1000 200 450 mounted) =
        ((200 - rect_left demo_host) / rect_width demo_host,
         1 - (450 - rect_top demo_host) / rect_height demo_host)"
    and B: "handleMouseMove (1000 + 10) 400 300 (handleMouseMove 1000 200 450 mounted) =
        handleMouseMove 1000 200 450 mounted"
    and C: "targetMousePos (handleMouseMove (1000 + 60) 600 150
        (handleMouseMove (1000 + 10) 400 300 (handleMouseMove 1000 200 450 mounted))) =
        ((600 - rect_left demo_host) / rect_width demo_host,
         1 - (150 - rect_top demo_host) / rect_height demo_host)"
    unfolding Let_def e by blast+
  have "targetMousePos (handleMouseMove 1000 200 450 mounted) = (1 / 4, 1 / 4) \<and>
   handleMouseMove 1010 400 300 (handleMouseMove 1000 200 450 mounted) =
     handleMouseMove 1000 200 450 mounted \<and>
   targetMousePos (handleMouseMove 1060 600 150
     (handleMouseMove 1010 400 300 (handleMouseMove 1000 200 450 mounted))) = (3 / 4, 3 / 4)"
    using A B C by (simp add: demo_host_def)
  with a b show ?thesis by blast
qed

text \<open>
  Claim C7. An accepted pointer event on a container whose rectangle has nonzero width
  and height sets the target to \<open>((clientX - left) / width, 1 - (clientY - top) / height)\<close>;
  an event at the container-relative position (0.25, 0.75) sets it to (0.25, 0.25).
\<close>

theorem pointer_normalised:
  assumes "\<not> now - lastMouseUpdate s < 50"
    and "rect_width (env s) \<noteq> 0" and "rect_height (env s) \<noteq> 0"
  shows "targetMousePos (handleMouseMove now clientX clientY s) =
           ((clientX - rect_left (env s)) / rect_width (env s),
            1 - (clientY - rect_top (env s)) / rect_height (env s)) \<and>
         ((clientX - rect_left (env s)) / rect_width (env s) = 0.25 \<and>
          (clientY - rect_top (env s)) / rect_height (env s) = 0.75 \<longrightarrow>
            targetMousePos (handleMouseMove now clientX clientY s) = (0.25, 0.25))"
  using assms(1) by (simp add: handleMouseMove_accept MOUSE_THROTTLE_def)

theorem pointer_normalised_witness:
  "\<not> 1000 - lastMouseUpdate mounted < 50 \<and>
   rect_width (env mounted) \<noteq> 0 \<and> rect_height (env mounted) \<noteq> 0 \<and>
   (200 - rect_left (env mounted)) / rect_width (env mounted) = 0.25 \<and>
   (450 - rect_top (env mounted)) / rect_height (env mounted) = 0.75 \<and>
   targetMousePos (handleMouseMove 1000 200 450 mounted) = (0.25, 0.25)"
proof -
  have l: "lastMouseUpdate mounted = 0" and e: "env mounted = demo_host"
    by (simp_all add: mounted_eval)
  have a: "\<not> 1000 - lastMouseUpdate mounted < 50" by (simp add: l)
  have w: "rect_width (env mounted) \<noteq> 0" and h: "rect_height (env mounted) \<noteq> 0"
    by (simp_all add: e demo_host_def)
  have x: "(200 - rect_left (env mounted)) / rect_width (env mounted) = 0.25"
    and y: "(450 - rect_top (env mounted)) / rect_height (env mounted) = 0.75"
    by (simp_all add: e demo_host_def)
  from pointer_normalised [OF a w h, of 200 450] x y
  have "targetMousePos (handleMouseMove 1000 200 450 mounted) = (0.25, 0.25)"
    by blast
  with a w h x y show ?thesis by blast
qed

section \<open>The invariant of a running session\<close>

lemma running_iff:
  "running p s \<longleftrightarrow>
     pending_frames s \<subseteq> set_option (animateId s) \<and>
     pending_timers s \<subseteq> set_option (resizeTimeout s) \<and>
     (mouse_listener s \<longrightarrow> mouseReact p) \<and>
     canvas_parent s \<noteq> Some Elsewhere \<and>
     (\<exists>u. program s = Some u \<and>
          uResolution u = (canvas_width s, canvas_height s, canvas_width s / canvas_height s))"
  by (auto simp: running_def split: option.splits)

lemma centred_iff:
  "centred s \<longleftrightarrow>
     \<not> mouse_listener s \<and> AddMouseListener \<notin> set (calls s) \<and>
     mousePos s = (0.5, 0.5) \<and> targetMousePos s = (0.5, 0.5) \<and>
     (\<exists>u. program s = Some u \<and> uMouse u = (0.5, 0.5)) \<and>
     list_all (\<lambda>u. uMouse u = (0.5, 0.5)) (drawn s)"
  by (auto simp: centred_def split: option.splits)

lemma set_option_minus:
  assumes "A \<subseteq> set_option x" and "i \<in> A"
  shows "A - {i} = {}"
  using assms by (cases x) auto

lemma running_effect_from:
  assumes "ctn_present (env s0)" and "pending_frames s0 = {}" and "pending_timers s0 = {}"
    and "\<not> mouse_listener s0"
  shows "running p (effect p s0)"
  using assms
  by (simp add: running_def effect_def effect_from_program_def effect_setup_def resize_def
      log_call_def requestAnimationFrame_def Let_def)

lemma running_effect:
  assumes "ctn_present h"
  shows "running p (effect p (first_render h))"
  by (rule running_effect_from) (simp_all add: assms first_render_def)

lemma running_reschedule:
  assumes "running p s" and "pending_frames s = {}"
  shows "running p (reschedule s)"
  using assms by (simp add: running_iff reschedule_def)

lemma update_running:
  assumes "running p s" and "pending_frames s = {}"
  shows "\<exists>s'. update t s = Inr s' \<and> running p s'"
proof (cases "binary64 (t - lastFrameTime s) < FRAME_DURATION")
  case True
  then show ?thesis
    using running_reschedule [OF assms] by (simp add: update_skip)
next
  case False
  from assms(1) obtain u where u: "program s = Some u"
    and r: "uResolution u = (canvas_width s, canvas_height s, canvas_width s / canvas_height s)"
    by (auto simp: running_iff)
  from running_reschedule [OF assms] r show ?thesis
    unfolding update_admit [OF False u]
    by (simp add: running_iff reschedule_def)
qed

lemma handleResize_running:
  assumes "running p s"
  shows "running p (handleResize s)"
  using assms
  by (auto simp: running_iff handleResize_def clearTimeout_def setTimeout_def log_call_def
      Let_def split: option.splits)

lemma resize_running:
  assumes "running p s"
  shows "running p (resize s)"
  using assms
  by (auto simp: running_iff resize_def Let_def split: option.splits)

lemma handleMouseMove_running:
  assumes "running p s"
  shows "running p (handleMouseMove now cx cy s)"
  using assms
  by (auto simp: running_iff handleMouseMove_def Let_def)

lemma step_running:
  assumes "running p s"
  shows "\<exists>s'. step e s = Inr s' \<and> running p s'"
proof (cases e)
  case (AnimationFrame i t)
  show ?thesis
  proof (cases "i \<in> pending_frames s")
    case True
    let ?s = "s\<lparr>pending_frames := pending_frames s - {i}\<rparr>"
    from assms have "pending_frames s \<subseteq> set_option (animateId s)"
      by (simp add: running_iff)
    from set_option_minus [OF this True] have "pending_frames ?s = {}"
      by simp
    moreover from assms have "running p ?s"
      by (auto simp: running_iff)
    ultimately have "\<exists>s'. update t ?s = Inr s' \<and> running p s'"
      by (intro update_running)
    with True AnimationFrame show ?thesis by simp
  next
    case False
    with AnimationFrame assms show ?thesis by simp
  qed
next
  case WindowResize
  with assms show ?thesis by (simp add: handleResize_running)
next
  case (TimeoutFires i)
  from assms have "running p (s\<lparr>pending_timers := pending_timers s - {i}\<rparr>)"
    by (auto simp: running_iff)
  then have "running p (resize (s\<lparr>pending_timers := pending_timers s - {i}\<rparr>))"
    by (rule resize_running)
  with TimeoutFires assms show ?thesis by simp
next
  case (MouseMove now cx cy)
  with assms show ?thesis by (simp add: handleMouseMove_running)
next
  case (Layout w h l t rw rh)
  with assms show ?thesis by (simp add: running_iff)
next
  case DetachCanvas
  with assms show ?thesis by (simp add: running_iff)
qed

lemma run_running:
  assumes "running p s"
  shows "\<exists>s'. run evs s = Inr s' \<and> running p s'"
  using assms
proof (induction evs arbitrary: s)
  case Nil
  then show ?case by simp
next
  case (Cons e evs)
  from step_running [OF Cons.prems] obtain s1 where
    s1: "step e s = Inr s1" "running p s1" by blast
  from Cons.IH [OF s1(2)] s1(1) show ?case by simp
qed

section \<open>Resizing\<close>

lemma resize_no_program:
  assumes "program s = None"
  shows "resize s =
           s\<lparr>canvas_width := fst (renderer_setSize (env s) (dpr s)
                                   (offsetWidth (env s) * 0.5) (offsetHeight (env s) * 0.5)),
             canvas_height := snd (renderer_setSize (env s) (dpr s)
                                   (offsetWidth (env s) * 0.5) (offsetHeight (env s) * 0.5)),
             canvas_style := (''100%'', ''100%'')\<rparr>"
  using assms by (simp add: resize_def Let_def)

lemma resize_program:
  assumes "program s = Some u"
  shows "resize s =
           s\<lparr>canvas_width := fst (renderer_setSize (env s) (dpr s)
                                   (offsetWidth (env s) * 0.5) (offsetHeight (env s) * 0.5)),
             canvas_height := snd (renderer_setSize (env s) (dpr s)
                                   (offsetWidth (env s) * 0.5) (offsetHeight (env s) * 0.5)),
             canvas_style := (''100%'', ''100%''),
             program := Some (u\<lparr>uResolution :=
               (fst (renderer_setSize (env s) (dpr s)
                      (offsetWidth (env s) * 0.5) (offsetHeight (env s) * 0.5)),
                snd (renderer_setSize (env s) (dpr s)
                      (offsetWidth (env s) * 0.5) (offsetHeight (env s) * 0.5)),
                fst (renderer_setSize (env s) (dpr s)
                      (offsetWidth (env s) * 0.5) (offsetHeight (env s) * 0.5)) /
                snd (renderer_setSize (env s) (dpr s)
                      (offsetWidth (env s) * 0.5) (offsetHeight (env s) * 0.5)))\<rparr>)\<rparr>"
  using assms by (simp add: resize_def Let_def)

lemma resize_keeps:
  "env (resize s) = env s"
  "dpr (resize s) = dpr s"
  "mousePos (resize s) = mousePos s"
  "targetMousePos (resize s) = targetMousePos s"
  "drawn (resize s) = drawn s"
  "calls (resize s) = calls s"
  "pending_frames (resize s) = pending_frames s"
  "pending_timers (resize s) = pending_timers s"
  "resize_listener (resize s) = resize_listener s"
  "mouse_listener (resize s) = mouse_listener s"
  "animateId (resize s) = animateId s"
  "resizeTimeout (resize s) = resizeTimeout s"
  "canvas_parent (resize s) = canvas_parent s"
  "(program (resize s) = None) = (program s = None)"
  by (simp_all add: resize_def Let_def split: option.splits)

text \<open>
  Claim C8. Applying \<open>resize\<close> twice in succession, the container box being the same, gives
  the state that applying it once gives; in particular the same \<open>uResolution\<close>
  (width, height and aspect) and the same canvas size.
\<close>

theorem resize_idempotent:
  "resize (resize s) = resize s \<and>
   program (resize (resize s)) = program (resize s) \<and>
   canvas_width (resize (resize s)) = canvas_width (resize s) \<and>
   canvas_height (resize (resize s)) = canvas_height (resize s)"
proof -
  have "resize (resize s) = resize s"
    by (cases "program s") (simp_all add: resize_def Let_def)
  then show ?thesis by simp
qed

lemma program_handleResize: "program (handleResize s) = program s"
  by (simp add: handleResize_def clearTimeout_def setTimeout_def log_call_def Let_def
      split: option.splits)

lemma program_handleMouseMove: "program (handleMouseMove now cx cy s) = program s"
  by (simp add: handleMouseMove_def Let_def)

lemma update_keeps_resolution:
  assumes "update t s = Inr s'" and "program s = Some u"
  shows "\<exists>u'. program s' = Some u' \<and> uResolution u' = uResolution u"
proof (cases "binary64 (t - lastFrameTime s) < FRAME_DURATION")
  case True
  with assms show ?thesis by (auto simp: update_skip reschedule_fields)
next
  case False
  from update_admit [OF False assms(2)] assms(1) show ?thesis by auto
qed

lemma step_keeps_resolution:
  assumes "step e s = Inr s'" and "program s = Some u" and "\<forall>i. e \<noteq> TimeoutFires i"
  shows "\<exists>u'. program s' = Some u' \<and> uResolution u' = uResolution u"
proof (cases e)
  case (AnimationFrame i t)
  show ?thesis
  proof (cases "i \<in> pending_frames s")
    case True
    with assms(1) AnimationFrame
    have "update t (s\<lparr>pending_frames := pending_frames s - {i}\<rparr>) = Inr s'" by simp
    moreover have "program (s\<lparr>pending_frames := pending_frames s - {i}\<rparr>) = Some u"
      using assms(2) by simp
    ultimately show ?thesis by (rule update_keeps_resolution)
  next
    case False
    with assms AnimationFrame show ?thesis by simp
  qed
next
  case WindowResize
  with assms show ?thesis by (auto simp: program_handleResize split: if_splits)
next
  case (TimeoutFires i)
  with assms(3) show ?thesis by simp
next
  case (MouseMove now cx cy)
  with assms show ?thesis by (auto simp: program_handleMouseMove split: if_splits)
next
  case (Layout w h l t rw rh)
  with assms show ?thesis by auto
next
  case DetachCanvas
  with assms show ?thesis by auto
qed

text \<open>
  Claim C10. The part of the effect that runs before \<open>resize()\<close> leaves \<open>program\<close>
  undefined. A resize with no program changes the canvas (its size and its CSS size)
  and nothing else, so no uniform is written. The effect then builds the program with
  \<open>uResolution\<close> taken from the canvas as that first resize left it. Once the program
  exists, a resize writes \<open>uResolution\<close> from the canvas it has just sized, and only that
  uniform; the handler of the \<open>resize\<close> event itself does not touch the program, it only
  arms the timer that will run \<open>resize\<close>. Of all that the browser can do to a session,
  only the expiry of that timer runs \<open>resize\<close>, and nothing else changes \<open>uResolution\<close>.
\<close>

theorem initial_resize_skips_uniforms:
  "program (effect_setup s) = None \<and>
   (program s = None \<longrightarrow>
      program (resize s) = None \<and>
      resize s = s\<lparr>canvas_width := canvas_width (resize s),
                    canvas_height := canvas_height (resize s),
                    canvas_style := (''100%'', ''100%'')\<rparr>) \<and>
   (ctn_present (env s) \<longrightarrow>
      effect p s = effect_from_program p (resize (effect_setup s)) \<and>
      canvas_width (effect p s) = canvas_width (resize (effect_setup s)) \<and>
      canvas_height (effect p s) = canvas_height (resize (effect_setup s)) \<and>
      (\<exists>u. program (effect p s) = Some u \<and>
           uResolution u =
             (canvas_width (effect p s), canvas_height (effect p s),
              canvas_width (effect p s) / canvas_height (effect p s)))) \<and>
   (program s = Some u \<longrightarrow>
      program (resize s) =
        Some (u\<lparr>uResolution :=
                (canvas_width (resize s), canvas_height (resize s),
                 canvas_width (resize s) / canvas_height (resize s))\<rparr>)) \<and>
   program (handleResize s) = program s \<and>
   (i \<in> pending_timers s \<longrightarrow>
      step (TimeoutFires i) s = Inr (resize (s\<lparr>pending_timers := pending_timers s - {i}\<rparr>))) \<and>
   (step e s = Inr s' \<and> program s = Some u \<and> (\<forall>i. e \<noteq> TimeoutFires i) \<longrightarrow>
      (\<exists>u'. program s' = Some u' \<and> uResolution u' = uResolution u))"
proof (intro conjI impI)
  show "program (effect_setup s) = None"
    by (simp add: effect_setup_def log_call_def Let_def)
next
  assume n: "program s = None"
  then show "program (resize s) = None" by (simp add: resize_keeps)
  show "resize s = s\<lparr>canvas_width := canvas_width (resize s),
                    canvas_height := canvas_height (resize s),
                    canvas_style := (''100%'', ''100%'')\<rparr>"
    by (simp add: resize_no_program [OF n])
next
  assume c: "ctn_present (env s)"
  then show "effect p s = effect_from_program p (resize (effect_setup s))"
    by (simp add: effect_def)
  show "canvas_width (effect p s) = canvas_width (resize (effect_setup s))"
    using c
    by (simp add: effect_def effect_from_program_def requestAnimationFrame_def log_call_def
        Let_def)
  show "canvas_height (effect p s) = canvas_height (resize (effect_setup s))"
    using c
    by (simp add: effect_def effect_from_program_def requestAnimationFrame_def log_call_def
        Let_def)
  show "\<exists>u. program (effect p s) = Some u \<and>
           uResolution u =
             (canvas_width (effect p s), canvas_height (effect p s),
              canvas_width (effect p s) / canvas_height (effect p s))"
    using c
    by (simp add: effect_def effect_from_program_def requestAnimationFrame_def log_call_def
        Let_def)
next
  assume "program s = Some u"
  then show "program (resize s) =
        Some (u\<lparr>uResolution :=
                (canvas_width (resize s), canvas_height (resize s),
                 canvas_width (resize s) / canvas_height (resize s))\<rparr>)"
    by (simp add: resize_program)
next
  show "program (handleResize s) = program s"
    by (rule program_handleResize)
next
  assume "i \<in> pending_timers s"
  then show "step (TimeoutFires i) s =
      Inr (resize (s\<lparr>pending_timers := pending_timers s - {i}\<rparr>))"
    by simp
next
  assume "step e s = Inr s' \<and> program s = Some u \<and> (\<forall>i. e \<noteq> TimeoutFires i)"
  then show "\<exists>u'. program s' = Some u' \<and> uResolution u' = uResolution u"
    by (blast intro: step_keeps_resolution)
qed

theorem initial_resize_skips_uniforms_witness:
  "ctn_present (env (first_render demo_host)) \<and>
   program (effect_setup (first_render demo_host)) = None \<and>
   program (resize (effect_setup (first_render demo_host))) = None \<and>
   canvas_width (resize (effect_setup (first_render demo_host))) = 400 \<and>
   canvas_height (resize (effect_setup (first_render demo_host))) = 300 \<and>
   program mounted =
     Some \<lparr>uTime = 0, uColor = (1, 1, 1), uResolution = (400, 300, 4 / 3),
           uMouse = (1 / 2, 1 / 2), uAmplitude = 1 / 10, uSpeed = 1\<rparr> \<and>
   program (resize (mounted\<lparr>env := demo_host\<lparr>offsetWidth := 1000, offsetHeight := 500\<rparr>\<rparr>)) =
     Some \<lparr>uTime = 0, uColor = (1, 1, 1), uResolution = (500, 250, 2),
           uMouse = (1 / 2, 1 / 2), uAmplitude = 1 / 10, uSpeed = 1\<rparr> \<and>
   2 \<in> pending_timers (handleResize mounted) \<and>
   step (TimeoutFires 2) (handleResize mounted) =
     Inr (resize ((handleResize mounted)
            \<lparr>pending_timers := pending_timers (handleResize mounted) - {2}\<rparr>)) \<and>
   (\<exists>s' u'. step (AnimationFrame 1 1000) mounted = Inr s' \<and> program s' = Some u' \<and>
      uResolution u' = (400, 300, 4 / 3))"
proof -
  let ?s0 = "first_render demo_host"
  let ?u = "\<lparr>uTime = 0, uColor = (1, 1, 1), uResolution = (400, 300, 4 / 3),
             uMouse = (1 / 2, 1 / 2), uAmplitude = 1 / 10, uSpeed = 1\<rparr>"
  let ?m = "mounted\<lparr>env := demo_host\<lparr>offsetWidth := 1000, offsetHeight := 500\<rparr>\<rparr>"
  have c: "ctn_present (env ?s0)" by (simp add: first_render_def demo_host_def)
  note th = initial_resize_skips_uniforms [of ?s0 default_props]
  from th have n: "program (effect_setup ?s0) = None" by blast
  from initial_resize_skips_uniforms [of "effect_setup ?s0"] n
  have n': "program (resize (effect_setup ?s0)) = None" by blast
  have w: "canvas_width (resize (effect_setup ?s0)) = 400"
    and h: "canvas_height (resize (effect_setup ?s0)) = 300"
    by (simp_all add: resize_def effect_setup_def first_render_def demo_host_def log_call_def
        Let_def)
  have p: "program mounted = Some ?u" by (simp add: mounted_eval)
  then have pm: "program ?m = Some ?u" by simp
  have cw: "canvas_width (resize ?m) = 500" and ch: "canvas_height (resize ?m) = 250"
    by (simp_all add: resize_def mounted_eval demo_host_def Let_def)
  from initial_resize_skips_uniforms [of ?m _ ?u] pm
  have "program (resize ?m) =
        Some (?u\<lparr>uResolution :=
                (canvas_width (resize ?m), canvas_height (resize ?m),
                 canvas_width (resize ?m) / canvas_height (resize ?m))\<rparr>)"
    by blast
  then have "program (resize ?m) =
     Some \<lparr>uTime = 0, uColor = (1, 1, 1), uResolution = (500, 250, 2),
           uMouse = (1 / 2, 1 / 2), uAmplitude = 1 / 10, uSpeed = 1\<rparr>"
    unfolding cw ch by simp
  moreover have t: "2 \<in> pending_timers (handleResize mounted)"
    by (simp add: handleResize_def clearTimeout_def setTimeout_def log_call_def mounted_eval
        Let_def)
  moreover from initial_resize_skips_uniforms [of "handleResize mounted" _ _ 2] t
  have "step (TimeoutFires 2) (handleResize mounted) =
     Inr (resize ((handleResize mounted)
            \<lparr>pending_timers := pending_timers (handleResize mounted) - {2}\<rparr>))"
    by blast
  moreover have "\<exists>s' u'. step (AnimationFrame 1 1000) mounted = Inr s' \<and>
      program s' = Some u' \<and> uResolution u' = (400, 300, 4 / 3)"
  proof -
    have "running default_props mounted"
      unfolding mounted_def by (rule running_effect) (simp add: demo_host_def)
    from step_running [OF this, of "AnimationFrame 1 1000"] obtain s' where
      s': "step (AnimationFrame 1 1000) mounted = Inr s'" by blast
    have "\<forall>i. AnimationFrame 1 1000 \<noteq> TimeoutFires i" by simp
    with initial_resize_skips_uniforms [of mounted _ ?u _ "AnimationFrame 1 1000" s'] s' p
    obtain u' where "program s' = Some u'" "uResolution u' = uResolution ?u" by blast
    with s' show ?thesis by auto
  qed
  ultimately show ?thesis using c n n' w h p by blast
qed

text \<open>
  Claim C5, as the code has it. A resize run with the program present writes
  \<open>uResolution = (canvas.width, canvas.height, canvas.width / canvas.height)\<close>, the canvas
  being as \<open>renderer.setSize(width * 0.5, height * 0.5)\<close> has just sized it. Where the
  renderer gives the canvas the size it is asked for, on a container of positive width
  and height, this is \<open>(width * 0.5, height * 0.5, width / height)\<close>; mounting on such a
  container leaves the same value in the program, (400, 300, 4/3) for 800 by 600. That
  is so for the library's renderer at pixel ratio 1 on a container whose width and
  height are even. At every moment of a session \<open>uResolution\<close> is
  \<open>(canvas.width, canvas.height, canvas.width / canvas.height)\<close> for the canvas as the
  latest resize sized it.
\<close>

theorem resize_resolution:
  "(program s = Some u \<longrightarrow>
      program (resize s) =
        Some (u\<lparr>uResolution :=
                (canvas_width (resize s), canvas_height (resize s),
                 canvas_width (resize s) / canvas_height (resize s))\<rparr>) \<and>
      (canvas_width (resize s), canvas_height (resize s)) =
        renderer_setSize (env s) (dpr s)
          (offsetWidth (env s) * 0.5) (offsetHeight (env s) * 0.5)) \<and>
   (program s = Some u \<and> 0 < offsetWidth (env s) \<and> 0 < offsetHeight (env s) \<and>
    renderer_setSize (env s) (dpr s) (offsetWidth (env s) * 0.5) (offsetHeight (env s) * 0.5)
      = (offsetWidth (env s) * 0.5, offsetHeight (env s) * 0.5) \<longrightarrow>
      program (resize s) =
        Some (u\<lparr>uResolution :=
                (offsetWidth (env s) * 0.5, offsetHeight (env s) * 0.5,
                 offsetWidth (env s) / offsetHeight (env s))\<rparr>)) \<and>
   (ctn_present h \<and> 0 < offsetWidth h \<and> 0 < offsetHeight h \<and>
    renderer_setSize h (min (devicePixelRatio h) 1.5) (offsetWidth h * 0.5) (offsetHeight h * 0.5)
      = (offsetWidth h * 0.5, offsetHeight h * 0.5) \<longrightarrow>
      (\<exists>u0. program (effect p (first_render h)) = Some u0 \<and>
            uResolution u0 =
              (offsetWidth h * 0.5, offsetHeight h * 0.5, offsetWidth h / offsetHeight h))) \<and>
   (ctn_present h \<and> run evs (effect p (first_render h)) = Inr s' \<longrightarrow>
      (\<exists>u'. program s' = Some u' \<and>
            uResolution u' =
              (canvas_width s', canvas_height s', canvas_width s' / canvas_height s'))) \<and>
   (program s = Some u \<and> renderer_setSize (env s) = ogl_setSize \<and> dpr s = 1 \<and>
    offsetWidth (env s) = 2 * of_nat a \<and> offsetHeight (env s) = 2 * of_nat b \<and> 0 < b \<longrightarrow>
      program (resize s) =
        Some (u\<lparr>uResolution := (of_nat a, of_nat b, of_nat a / of_nat b)\<rparr>))"
proof (intro conjI impI)
  assume "program s = Some u"
  then show "program (resize s) =
        Some (u\<lparr>uResolution :=
                (canvas_width (resize s), canvas_height (resize s),
                 canvas_width (resize s) / canvas_height (resize s))\<rparr>)"
    by (simp add: resize_program)
next
  assume "program s = Some u"
  then show "(canvas_width (resize s), canvas_height (resize s)) =
        renderer_setSize (env s) (dpr s)
          (offsetWidth (env s) * 0.5) (offsetHeight (env s) * 0.5)"
    by (simp add: resize_program)
next
  assume a: "program s = Some u \<and> renderer_setSize (env s) = ogl_setSize \<and> dpr s = 1 \<and>
    offsetWidth (env s) = 2 * of_nat a \<and> offsetHeight (env s) = 2 * of_nat b \<and> 0 < b"
  then show "program (resize s) =
        Some (u\<lparr>uResolution := (of_nat a, of_nat b, of_nat a / of_nat b)\<rparr>)"
    by (simp add: resize_program ogl_setSize_def)
next
  assume a: "program s = Some u \<and> 0 < offsetWidth (env s) \<and> 0 < offsetHeight (env s) \<and>
    renderer_setSize (env s) (dpr s) (offsetWidth (env s) * 0.5) (offsetHeight (env s) * 0.5)
      = (offsetWidth (env s) * 0.5, offsetHeight (env s) * 0.5)"
  then have "(offsetWidth (env s) * 0.5) / (offsetHeight (env s) * 0.5) =
      offsetWidth (env s) / offsetHeight (env s)"
    by simp
  with a show "program (resize s) =
        Some (u\<lparr>uResolution :=
                (offsetWidth (env s) * 0.5, offsetHeight (env s) * 0.5,
                 offsetWidth (env s) / offsetHeight (env s))\<rparr>)"
    by (simp add: resize_program)
next
  assume a: "ctn_present h \<and> 0 < offsetWidth h \<and> 0 < offsetHeight h \<and>
    renderer_setSize h (min (devicePixelRatio h) 1.5) (offsetWidth h * 0.5) (offsetHeight h * 0.5)
      = (offsetWidth h * 0.5, offsetHeight h * 0.5)"
  then have "(offsetWidth h * 0.5) / (offsetHeight h * 0.5) = offsetWidth h / offsetHeight h"
    by simp
  with a show "\<exists>u0. program (effect p (first_render h)) = Some u0 \<and>
            uResolution u0 =
              (offsetWidth h * 0.5, offsetHeight h * 0.5, offsetWidth h / offsetHeight h)"
    by (simp add: effect_def effect_from_program_def effect_setup_def resize_def
        first_render_def log_call_def requestAnimationFrame_def Let_def)
next
  assume a: "ctn_present h \<and> run evs (effect p (first_render h)) = Inr s'"
  then have "running p (effect p (first_render h))"
    by (simp add: running_effect)
  from run_running [OF this, of evs] a have "running p s'" by simp
  then show "\<exists>u'. program s' = Some u' \<and>
            uResolution u' =
              (canvas_width s', canvas_height s', canvas_width s' / canvas_height s')"
    by (simp add: running_iff)
qed

text \<open>
  The scenario: mounting on the 800 by 600 container gives (400, 300, 4/3); after the
  container has grown to 1000 by 500, a resize event and the expiry of its timer give
  (500, 250, 2).
\<close>

theorem resize_resolution_witness:
  "ctn_present demo_host \<and> 0 < offsetWidth demo_host \<and> 0 < offsetHeight demo_host \<and>
   renderer_setSize demo_host (min (devicePixelRatio demo_host) 1.5)
      (offsetWidth demo_host * 0.5) (offsetHeight demo_host * 0.5)
      = (offsetWidth demo_host * 0.5, offsetHeight demo_host * 0.5) \<and>
   (\<exists>u0. program mounted = Some u0 \<and> uResolution u0 = (400, 300, 4 / 3)) \<and>
   (\<exists>s' u'. run [Layout 1000 500 0 0 1000 500, WindowResize, TimeoutFires 2] mounted = Inr s' \<and>
      program s' = Some u' \<and> uResolution u' = (500, 250, 2)) \<and>
   map_option uResolution
     (program (resize (mounted\<lparr>env := demo_host\<lparr>renderer_setSize := ogl_setSize\<rparr>\<rparr>))) =
     Some (400, 300, 4 / 3)"
proof -
  let ?m = "mounted\<lparr>env := demo_host\<lparr>renderer_setSize := ogl_setSize\<rparr>\<rparr>"
  let ?u = "\<lparr>uTime = 0, uColor = (1, 1, 1), uResolution = (400, 300, 4 / 3),
             uMouse = (1 / 2, 1 / 2), uAmplitude = 1 / 10, uSpeed = 1\<rparr>"
  have "program ?m = Some ?u \<and> renderer_setSize (env ?m) = ogl_setSize \<and> dpr ?m = 1 \<and>
    offsetWidth (env ?m) = 2 * of_nat 400 \<and> offsetHeight (env ?m) = 2 * of_nat 300 \<and>
    (0 :: nat) < 300"
    by (simp add: mounted_eval demo_host_def)
  with resize_resolution [of ?m ?u _ _ _ _ 400 300]
  have "program (resize ?m) =
      Some (?u\<lparr>uResolution := (of_nat 400, of_nat 300, of_nat 400 / of_nat 300)\<rparr>)"
    by blast
  then have o: "map_option uResolution (program (resize ?m)) = Some (400, 300, 4 / 3)"
    by simp
  have h: "ctn_present demo_host \<and> 0 < offsetWidth demo_host \<and> 0 < offsetHeight demo_host \<and>
   renderer_setSize demo_host (min (devicePixelRatio demo_host) 1.5)
      (offsetWidth demo_host * 0.5) (offsetHeight demo_host * 0.5)
      = (offsetWidth demo_host * 0.5, offsetHeight demo_host * 0.5)"
    by (simp add: demo_host_def)
  from resize_resolution [of _ _ demo_host default_props] h
  have "\<exists>u0. program (effect default_props (first_render demo_host)) = Some u0 \<and>
      uResolution u0 =
        (offsetWidth demo_host * 0.5, offsetHeight demo_host * 0.5,
         offsetWidth demo_host / offsetHeight demo_host)"
    by blast
  then have m: "\<exists>u0. program mounted = Some u0 \<and> uResolution u0 = (400, 300, 4 / 3)"
    by (simp add: mounted_def demo_host_def)
  let ?evs = "[Layout 1000 500 0 0 1000 500, WindowResize, TimeoutFires 2]"
  have r: "run ?evs mounted =
      Inr (resize (mounted\<lparr>env := demo_host\<lparr>offsetWidth := 1000, offsetHeight := 500,
                                rect_left := 0, rect_top := 0, rect_width := 1000,
                                rect_height := 500\<rparr>,
                     pending_timers := {},
                     next_handle := 3,
                     calls := calls mounted @ [ClearTimeout None, SetTimeout 2],
                     resizeTimeout := Some 2\<rparr>))"
    by (simp add: mounted_eval handleResize_def clearTimeout_def setTimeout_def log_call_def
        Let_def)
  then obtain s' where s': "run ?evs mounted = Inr s'" 
    "canvas_width s' = 500" "canvas_height s' = 250"
    by (simp add: resize_def mounted_eval demo_host_def Let_def)
  from resize_resolution [of _ _ demo_host default_props ?evs s'] h s'(1)
  obtain u' where "program s' = Some u'"
    "uResolution u' = (canvas_width s', canvas_height s', canvas_width s' / canvas_height s')"
    unfolding mounted_def by blast
  with s' have "\<exists>s' u'. run ?evs mounted = Inr s' \<and>
      program s' = Some u' \<and> uResolution u' = (500, 250, 2)"
    by auto
  with h m o show ?thesis by blast
qed

text \<open>
  Claim C5 as stated fails for the library's renderer. On a display of pixel ratio 2 the
  renderer is built with ratio 1.5, and mounting on the 800 by 600 container, or a later
  resize, gives (600, 450, 4/3), not (400, 300, 4/3). On a container of 801 by 601 at
  ratio 1 a resize gives (400, 300, 4/3): neither the halves (400.5, 300.5) nor the
  aspect 801/601.
\<close>

theorem resolution_of_container_counterexample:
  "map_option uResolution (program (effect default_props (first_render hidpi_host))) =
     Some (600, 450, 4 / 3) \<and>
   map_option uResolution
     (program (resize (effect default_props (first_render hidpi_host)))) =
     Some (600, 450, 4 / 3) \<and>
   (offsetWidth hidpi_host * 0.5, offsetHeight hidpi_host * 0.5,
    offsetWidth hidpi_host / offsetHeight hidpi_host) = (400, 300, 4 / 3) \<and>
   map_option uResolution
     (program (resize (effect default_props (first_render odd_host)))) =
     Some (400, 300, 4 / 3) \<and>
   (offsetWidth odd_host * 0.5, offsetHeight odd_host * 0.5,
    offsetWidth odd_host / offsetHeight odd_host) = (801 / 2, 601 / 2, 801 / 601)"
  by (simp add: effect_def effect_from_program_def effect_setup_def resize_def
      first_render_def hidpi_host_def odd_host_def demo_host_def default_props_def
      ogl_setSize_def log_call_def requestAnimationFrame_def Let_def)

section \<open>Teardown\<close>

lemma acquisition_order_effect:
  assumes "ctn_present h"
  shows "acquisition_order (calls (effect p (first_render h))) =
           [GLContext, ResizeListener, AnimationCallback, CanvasNode]
           @ (if mouseReact p then [PointerListener] else [])"
  using assms
  by (simp add: acquisition_order_def effect_def effect_from_program_def
      effect_setup_def resize_def first_render_def log_call_def requestAnimationFrame_def
      Let_def)

lemma cleanup_running:
  assumes "running p s"
  shows "\<exists>s1. cleanup p s = Inr s1 \<and> quiescent s1 \<and>
           (context_lost s1 \<longleftrightarrow> context_lost s \<or> lose_context_ext (env s)) \<and>
           (lose_context_ext (env s1) \<longrightarrow> context_lost s1) \<and>
           calls s1 = calls s
             @ [CancelAnimationFrame (animateId s), ClearTimeout (resizeTimeout s),
                RemoveResizeListener]
             @ (if mouseReact p then [RemoveMouseListener] else [])
             @ (if canvas_parent s = Some Container then [RemoveChild] else [])
             @ (if lose_context_ext (env s) then [LoseContext] else [])"
proof -
  from assms have f: "pending_frames s - set_option (animateId s) = {}"
    and t: "pending_timers s - set_option (resizeTimeout s) = {}"
    and m: "mouse_listener s \<longrightarrow> mouseReact p"
    and ne: "canvas_parent s \<noteq> Some Elsewhere"
    by (auto simp: running_iff)
  have c: "canvas_parent s = None \<or> canvas_parent s = Some Container"
  proof (cases "canvas_parent s")
    case None
    then show ?thesis by simp
  next
    case (Some x)
    with ne show ?thesis by (cases x) simp_all
  qed
  have f': "pending_frames (cancelAnimationFrame (animateId s) s) = {}"
    using f by (cases "animateId s") (simp_all add: cancelAnimationFrame_def log_call_def)
  have t': "pending_timers (clearTimeout (resizeTimeout s) s') = 
      pending_timers s' - set_option (resizeTimeout s)" for s'
    by (cases "resizeTimeout s") (simp_all add: clearTimeout_def log_call_def)
  have k: "resizeTimeout (cancelAnimationFrame i s) = resizeTimeout s"
    "pending_timers (cancelAnimationFrame i s) = pending_timers s"
    "calls (cancelAnimationFrame i s) = calls s @ [CancelAnimationFrame i]"
    "canvas_parent (cancelAnimationFrame i s) = canvas_parent s"
    "mouse_listener (cancelAnimationFrame i s) = mouse_listener s"
    "env (cancelAnimationFrame i s) = env s"
    "context_lost (cancelAnimationFrame i s) = context_lost s" for i
    by (cases i; simp add: cancelAnimationFrame_def log_call_def)+
  have k2: "pending_frames (clearTimeout j s') = pending_frames s'"
    "calls (clearTimeout j s') = calls s' @ [ClearTimeout j]"
    "canvas_parent (clearTimeout j s') = canvas_parent s'"
    "mouse_listener (clearTimeout j s') = mouse_listener s'"
    "env (clearTimeout j s') = env s'"
    "context_lost (clearTimeout j s') = context_lost s'" for j s'
    by (cases j; simp add: clearTimeout_def log_call_def)+
  from c show ?thesis
  proof
    assume "canvas_parent s = None"
    then show ?thesis
      using f' t m
      by (auto simp: cleanup_def Let_def log_call_def quiescent_def k k2 t')
  next
    assume "canvas_parent s = Some Container"
    then show ?thesis
      using f' t m
      by (auto simp: cleanup_def Let_def log_call_def quiescent_def k k2 t')
  qed
qed

lemma cleanup_again:
  assumes "quiescent s1" and "lose_context_ext (env s1) \<longrightarrow> context_lost s1"
  shows "\<exists>s2. cleanup p s1 = Inr s2 \<and> quiescent s2 \<and> s2\<lparr>calls := calls s1\<rparr> = s1"
proof -
  from assms(1) have q: "pending_frames s1 = {}" "pending_timers s1 = {}"
    "\<not> resize_listener s1" "\<not> mouse_listener s1" "canvas_parent s1 = None"
    by (simp_all add: quiescent_def)
  have a: "cancelAnimationFrame i s1 = s1\<lparr>calls := calls s1 @ [CancelAnimationFrame i]\<rparr>" for i
    using q(1) by (cases i) (simp_all add: cancelAnimationFrame_def log_call_def)
  have b: "clearTimeout j (s1\<lparr>calls := cs\<rparr>) = s1\<lparr>calls := cs @ [ClearTimeout j]\<rparr>" for j cs
    using q(2) by (cases j) (simp_all add: clearTimeout_def log_call_def)
  have c: "s1\<lparr>calls := cs, resize_listener := False\<rparr> = s1\<lparr>calls := cs\<rparr>" for cs
    using q(3) by simp
  have d: "s1\<lparr>calls := cs, mouse_listener := False\<rparr> = s1\<lparr>calls := cs\<rparr>" for cs
    using q(4) by simp
  have e: "lose_context_ext (env s1) \<Longrightarrow> s1\<lparr>calls := cs, context_lost := True\<rparr> = s1\<lparr>calls := cs\<rparr>"
    for cs using assms(2) by simp
  show ?thesis
    using q
    by (auto simp: cleanup_def Let_def log_call_def a b c d e quiescent_def)
qed

lemma quiescent_step:
  assumes "quiescent s"
  shows "step (AnimationFrame i t) s = Inr s"
    and "step WindowResize s = Inr s"
    and "step (TimeoutFires i) s = Inr s"
    and "step (MouseMove now cx cy) s = Inr s"
  using assms by (simp_all add: quiescent_def)

text \<open>
  Claim C4, as the code has it. For a session mounted on an existing container, in
  whatever state the browser's events have left it (pointer reaction on or off, a resize
  timer pending or not, the canvas still in the container or already taken out), the
  cleanup ends without error and leaves nothing behind: no pending animation-frame
  request, no pending timeout, no resize or pointer listener, the canvas detached; the
  context is lost when the browser offers \<open>WEBGL_lose_context\<close>; no callback of the
  session runs afterwards. A second cleanup ends without error too and changes nothing
  but the log of calls. The releases happen in the order animation callback, resize
  timer, resize listener, pointer listener, canvas, context, while the acquisitions
  happened in the order context, resize listener, animation callback, canvas, pointer
  listener.
\<close>

theorem teardown_releases_everything:
  assumes "ctn_present h" and "run evs (effect p (first_render h)) = Inr s"
  shows "\<exists>s1 s2.
           cleanup p s = Inr s1 \<and> quiescent s1 \<and>
           (context_lost s1 \<longleftrightarrow> context_lost s \<or> lose_context_ext (env s)) \<and>
           (\<forall>i t. step (AnimationFrame i t) s1 = Inr s1) \<and>
           step WindowResize s1 = Inr s1 \<and>
           (\<forall>i. step (TimeoutFires i) s1 = Inr s1) \<and>
           (\<forall>now cx cy. step (MouseMove now cx cy) s1 = Inr s1) \<and>
           cleanup p s1 = Inr s2 \<and> quiescent s2 \<and> s2\<lparr>calls := calls s1\<rparr> = s1 \<and>
           release_order (cleanup_calls p s) =
             [AnimationCallback, ResizeTimer, ResizeListener]
             @ (if mouseReact p then [PointerListener] else [])
             @ (if canvas_parent s = Some Container then [CanvasNode] else [])
             @ (if lose_context_ext (env s) then [GLContext] else []) \<and>
           acquisition_order (calls (effect p (first_render h))) =
             [GLContext, ResizeListener, AnimationCallback, CanvasNode]
             @ (if mouseReact p then [PointerListener] else [])"
proof -
  from running_effect [OF assms(1)] have "running p (effect p (first_render h))" .
  from run_running [OF this, of evs] assms(2) have r: "running p s" by simp
  from cleanup_running [OF r] obtain s1 where
    s1: "cleanup p s = Inr s1" "quiescent s1"
      "context_lost s1 \<longleftrightarrow> context_lost s \<or> lose_context_ext (env s)"
      "lose_context_ext (env s1) \<longrightarrow> context_lost s1"
      "calls s1 = calls s
             @ [CancelAnimationFrame (animateId s), ClearTimeout (resizeTimeout s),
                RemoveResizeListener]
             @ (if mouseReact p then [RemoveMouseListener] else [])
             @ (if canvas_parent s = Some Container then [RemoveChild] else [])
             @ (if lose_context_ext (env s) then [LoseContext] else [])"
    by blast
  from cleanup_again [OF s1(2) s1(4)] obtain s2 where
    s2: "cleanup p s1 = Inr s2" "quiescent s2" "s2\<lparr>calls := calls s1\<rparr> = s1"
    by blast
  have o: "release_order (cleanup_calls p s) =
             [AnimationCallback, ResizeTimer, ResizeListener]
             @ (if mouseReact p then [PointerListener] else [])
             @ (if canvas_parent s = Some Container then [CanvasNode] else [])
             @ (if lose_context_ext (env s) then [GLContext] else [])"
    by (simp add: cleanup_calls_def s1(1) s1(5) release_order_def)
  note q = quiescent_step [OF s1(2)]
  from s1(1-3) s2 o q acquisition_order_effect [OF assms(1), of p]
  show ?thesis by blast
qed

text \<open>
  The scenario, after a resize event (its timer is pending) and with the canvas already
  taken out of the container.
\<close>

theorem teardown_releases_everything_witness:
  "ctn_present demo_host \<and>
   (\<exists>s s1 s2.
      run [WindowResize, DetachCanvas] (effect default_props (first_render demo_host)) = Inr s \<and>
      pending_timers s = {2} \<and> pending_frames s = {1} \<and> canvas_parent s = None \<and>
      cleanup default_props s = Inr s1 \<and> quiescent s1 \<and> context_lost s1 \<and>
      cleanup default_props s1 = Inr s2 \<and> quiescent s2 \<and>
      release_order (cleanup_calls default_props s) =
        [AnimationCallback, ResizeTimer, ResizeListener, PointerListener, GLContext])"
proof -
  have c: "ctn_present demo_host" by (simp add: demo_host_def)
  let ?s = "mounted\<lparr>pending_timers := {2}, next_handle := 3,
                    calls := calls mounted @ [ClearTimeout None, SetTimeout 2],
                    resizeTimeout := Some 2, canvas_parent := None\<rparr>"
  have r: "run [WindowResize, DetachCanvas] (effect default_props (first_render demo_host)) =
      Inr ?s"
    unfolding mounted_def [symmetric]
    by (simp add: mounted_eval handleResize_def clearTimeout_def setTimeout_def log_call_def
        Let_def)
  have f: "pending_timers ?s = {2}" "pending_frames ?s = {1}" "canvas_parent ?s = None"
    "\<not> context_lost ?s" "lose_context_ext (env ?s)" "mouseReact default_props"
    by (simp_all add: mounted_eval demo_host_def default_props_def)
  from teardown_releases_everything [OF c r] obtain s1 s2 where
    "cleanup default_props ?s = Inr s1" "quiescent s1"
    "context_lost s1 \<longleftrightarrow> context_lost ?s \<or> lose_context_ext (env ?s)"
    "cleanup default_props s1 = Inr s2" "quiescent s2"
    "release_order (cleanup_calls default_props ?s) =
             [AnimationCallback, ResizeTimer, ResizeListener]
             @ (if mouseReact default_props then [PointerListener] else [])
             @ (if canvas_parent ?s = Some Container then [CanvasNode] else [])
             @ (if lose_context_ext (env ?s) then [GLContext] else [])"
    by blast
  with f have "cleanup default_props ?s = Inr s1 \<and> quiescent s1 \<and> context_lost s1 \<and>
      cleanup default_props s1 = Inr s2 \<and> quiescent s2 \<and>
      release_order (cleanup_calls default_props ?s) =
        [AnimationCallback, ResizeTimer, ResizeListener, PointerListener, GLContext]"
    by simp
  with r f(1-3) have "\<exists>s s1 s2.
      run [WindowResize, DetachCanvas] (effect default_props (first_render demo_host)) = Inr s \<and>
      pending_timers s = {2} \<and> pending_frames s = {1} \<and> canvas_parent s = None \<and>
      cleanup default_props s = Inr s1 \<and> quiescent s1 \<and> context_lost s1 \<and>
      cleanup default_props s1 = Inr s2 \<and> quiescent s2 \<and>
      release_order (cleanup_calls default_props s) =
        [AnimationCallback, ResizeTimer, ResizeListener, PointerListener, GLContext]"
    by blast
  with c show ?thesis by (intro conjI)
qed

text \<open>
  Claim C4 as stated fails on the order: in the scenario the cleanup releases animation
  callback, resize timer, resize listener, pointer listener, canvas, context, which is not
  the reverse of the acquisition order context, resize listener, animation callback,
  canvas, pointer listener, with or without the timer (never acquired here). And where
  the browser does not offer \<open>WEBGL_lose_context\<close> the context is not released.
\<close>

theorem teardown_order_counterexample:
  "release_order (cleanup_calls default_props mounted) =
     [AnimationCallback, ResizeTimer, ResizeListener, PointerListener, CanvasNode, GLContext] \<and>
   acquisition_order (calls mounted) =
     [GLContext, ResizeListener, AnimationCallback, CanvasNode, PointerListener] \<and>
   release_order (cleanup_calls default_props mounted) \<noteq> rev (acquisition_order (calls mounted)) \<and>
   removeAll ResizeTimer (release_order (cleanup_calls default_props mounted))
     \<noteq> rev (acquisition_order (calls mounted)) \<and>
   map_sum id context_lost
     (cleanup default_props (mounted\<lparr>env := demo_host\<lparr>lose_context_ext := False\<rparr>\<rparr>)) = Inr False"
proof -
  have a: "acquisition_order (calls mounted) =
     [GLContext, ResizeListener, AnimationCallback, CanvasNode, PointerListener]"
    by (simp add: mounted_eval acquisition_order_def)
  have c: "cleanup default_props mounted =
      Inr (mounted\<lparr>pending_frames := {}, resize_listener := False, mouse_listener := False,
                   canvas_parent := None, context_lost := True,
                   calls := calls mounted @
                     [CancelAnimationFrame (Some 1), ClearTimeout None, RemoveResizeListener,
                      RemoveMouseListener, RemoveChild, LoseContext]\<rparr>)"
    by (simp add: mounted_eval cleanup_def cancelAnimationFrame_def clearTimeout_def
        log_call_def default_props_def demo_host_def Let_def)
  have r: "release_order (cleanup_calls default_props mounted) =
     [AnimationCallback, ResizeTimer, ResizeListener, PointerListener, CanvasNode, GLContext]"
    by (simp add: cleanup_calls_def c release_order_def)
  have l: "map_sum id context_lost
     (cleanup default_props (mounted\<lparr>env := demo_host\<lparr>lose_context_ext := False\<rparr>\<rparr>)) = Inr False"
    by (simp add: mounted_eval cleanup_def cancelAnimationFrame_def clearTimeout_def
        log_call_def default_props_def demo_host_def Let_def)
  show ?thesis
    unfolding r a using l by simp
qed

section \<open>A session without pointer reaction\<close>

lemma centred_effect:
  assumes "idle_centred s0" and "\<not> mouseReact p"
  shows "centred (effect p s0)"
  using assms
  by (simp add: centred_iff idle_centred_def quiescent_def effect_def effect_from_program_def
      effect_setup_def resize_def log_call_def requestAnimationFrame_def Let_def)

lemma running_effect_idle:
  assumes "idle_centred s0"
  shows "running p (effect p s0)"
  using assms
  by (intro running_effect_from) (simp_all add: idle_centred_def quiescent_def)

lemma centred_update:
  assumes "centred s" and "update t s = Inr s'"
  shows "centred s'"
proof (cases "binary64 (t - lastFrameTime s) < FRAME_DURATION")
  case True
  with assms show ?thesis
    by (auto simp: update_skip centred_iff reschedule_def)
next
  case False
  from assms(1) obtain u where u: "program s = Some u" "uMouse u = (0.5, 0.5)"
    by (auto simp: centred_iff)
  from assms show ?thesis
    unfolding update_admit [OF False u(1)]
    by (auto simp: centred_iff reschedule_def u)
qed

lemma centred_handleResize:
  assumes "centred s"
  shows "centred (handleResize s)"
  using assms
  by (auto simp: centred_iff handleResize_def clearTimeout_def setTimeout_def log_call_def
      Let_def split: option.splits)

lemma centred_resize:
  assumes "centred s"
  shows "centred (resize s)"
  using assms
  by (auto simp: centred_iff resize_def Let_def split: option.splits)

lemma centred_step:
  assumes "centred s" and "step e s = Inr s'"
  shows "centred s'"
proof (cases e)
  case (AnimationFrame i t)
  show ?thesis
  proof (cases "i \<in> pending_frames s")
    case True
    from assms(1) have "centred (s\<lparr>pending_frames := pending_frames s - {i}\<rparr>)"
      by (simp add: centred_iff)
    moreover from assms(2) AnimationFrame True
    have "update t (s\<lparr>pending_frames := pending_frames s - {i}\<rparr>) = Inr s'" by simp
    ultimately show ?thesis by (rule centred_update)
  next
    case False
    with assms AnimationFrame show ?thesis by simp
  qed
next
  case WindowResize
  with assms centred_handleResize [OF assms(1)] show ?thesis
    by (auto split: if_splits)
next
  case (TimeoutFires i)
  from assms(1) have "centred (s\<lparr>pending_timers := pending_timers s - {i}\<rparr>)"
    by (simp add: centred_iff)
  from centred_resize [OF this] assms TimeoutFires show ?thesis
    by (auto split: if_splits)
next
  case (MouseMove now cx cy)
  with assms show ?thesis by (auto simp: centred_iff)
next
  case (Layout w h l t rw rh)
  with assms show ?thesis by (auto simp: centred_iff)
next
  case DetachCanvas
  with assms show ?thesis by (auto simp: centred_iff)
qed

lemma centred_run:
  assumes "centred s" and "run evs s = Inr s'"
  shows "centred s'"
  using assms
proof (induction evs arbitrary: s)
  case Nil
  then show ?case by simp
next
  case (Cons e evs)
  from Cons.prems(2) obtain s1 where s1: "step e s = Inr s1" "run evs s1 = Inr s'"
    by (auto split: sum.splits)
  from centred_step [OF Cons.prems(1) s1(1)] s1(2) show ?case by (rule Cons.IH)
qed

lemma ctn_present_step:
  assumes "step e s = Inr s'"
  shows "ctn_present (env s') = ctn_present (env s)"
proof (cases e)
  case (AnimationFrame i t)
  with assms show ?thesis
    by (auto simp: update_def requestAnimationFrame_def log_call_def render_def Let_def
        split: if_splits option.splits)
next
  case WindowResize
  with assms show ?thesis
    by (auto simp: handleResize_def clearTimeout_def setTimeout_def log_call_def Let_def
        split: if_splits option.splits)
next
  case (TimeoutFires i)
  with assms show ?thesis by (auto simp: resize_keeps split: if_splits)
next
  case (MouseMove now cx cy)
  with assms show ?thesis by (auto simp: handleMouseMove_def Let_def split: if_splits)
next
  case (Layout w h l t rw rh)
  with assms show ?thesis by auto
next
  case DetachCanvas
  with assms show ?thesis by auto
qed

lemma ctn_present_run:
  assumes "run evs s = Inr s'"
  shows "ctn_present (env s') = ctn_present (env s)"
  using assms
proof (induction evs arbitrary: s)
  case Nil
  then show ?case by simp
next
  case (Cons e evs)
  from Cons.prems obtain s1 where s1: "step e s = Inr s1" "run evs s1 = Inr s'"
    by (auto split: sum.splits)
  from Cons.IH [OF s1(2)] ctn_present_step [OF s1(1)] show ?case by simp
qed

lemma ctn_present_effect: "ctn_present (env (effect p s)) = ctn_present (env s)"
  by (simp add: effect_def effect_from_program_def effect_setup_def resize_keeps log_call_def
      requestAnimationFrame_def Let_def)

lemma cleanup_keeps:
  assumes "cleanup p s = Inr s'"
  shows "mousePos s' = mousePos s" and "targetMousePos s' = targetMousePos s"
    and "drawn s' = drawn s" and "env s' = env s"
  using assms
  by (auto simp: cleanup_def cancelAnimationFrame_def clearTimeout_def log_call_def Let_def
      split: option.splits parent.splits if_splits)

lemma idle_after_cleanup:
  assumes "centred s" and "running p s" and "ctn_present (env s)"
  shows "\<exists>s'. cleanup p s = Inr s' \<and> idle_centred s'"
proof -
  from cleanup_running [OF assms(2)] obtain s' where
    s': "cleanup p s = Inr s'" "quiescent s'"
      "calls s' = calls s
             @ [CancelAnimationFrame (animateId s), ClearTimeout (resizeTimeout s),
                RemoveResizeListener]
             @ (if mouseReact p then [RemoveMouseListener] else [])
             @ (if canvas_parent s = Some Container then [RemoveChild] else [])
             @ (if lose_context_ext (env s) then [LoseContext] else [])"
    by blast
  from assms(1) have c: "AddMouseListener \<notin> set (calls s)" "mousePos s = (0.5, 0.5)"
    "targetMousePos s = (0.5, 0.5)" "list_all (\<lambda>u. uMouse u = (0.5, 0.5)) (drawn s)"
    by (simp_all add: centred_iff)
  have "idle_centred s'"
    unfolding idle_centred_def
    using s'(2) c assms(3) by (simp add: cleanup_keeps [OF s'(1)] s'(3))
  with s'(1) show ?thesis by blast
qed

lemma lifetime_centred:
  assumes "idle_centred s0" and "ss \<noteq> []" and "\<forall>(p, evs) \<in> set ss. \<not> mouseReact p"
  shows "\<exists>s. lifetime s0 ss = Inr s \<and> centred s"
  using assms
proof (induction ss arbitrary: s0)
  case Nil
  then show ?case by simp
next
  case (Cons x later)
  obtain p evs where x: "x = (p, evs)" by (cases x)
  from Cons.prems(3) x have np: "\<not> mouseReact p" by simp
  from running_effect_idle [OF Cons.prems(1), of p]
  obtain s1 where s1: "run evs (effect p s0) = Inr s1" "running p s1"
    using run_running by blast
  from centred_effect [OF Cons.prems(1) np] s1(1) have c1: "centred s1"
    by (rule centred_run)
  show ?case
  proof (cases "later = []")
    case True
    with x s1 c1 show ?thesis by simp
  next
    case False
    from Cons.prems(1) have c0: "ctn_present (env s0)" by (simp add: idle_centred_def)
    then have "ctn_present (env s1)"
      using ctn_present_run [OF s1(1)] by (simp add: ctn_present_effect)
    from idle_after_cleanup [OF c1 s1(2) this] obtain s2 where
      s2: "cleanup p s1 = Inr s2" "idle_centred s2" by blast
    from Cons.prems(3) have "\<forall>(p, evs) \<in> set later. \<not> mouseReact p" by simp
    from Cons.IH [OF s2(2) False this] x s1(1) s2(1) False c0 show ?thesis by simp
  qed
qed

lemma target_step:
  assumes "step e s = Inr s'" and "\<not> mouse_listener s"
  shows "targetMousePos s' = targetMousePos s \<and> \<not> mouse_listener s'"
proof (cases e)
  case (AnimationFrame i t)
  with assms show ?thesis
    by (auto simp: update_def requestAnimationFrame_def log_call_def render_def Let_def
        split: if_splits option.splits)
next
  case WindowResize
  with assms show ?thesis
    by (auto simp: handleResize_def clearTimeout_def setTimeout_def log_call_def Let_def
        split: if_splits option.splits)
next
  case (TimeoutFires i)
  with assms show ?thesis by (auto simp: resize_keeps split: if_splits)
next
  case (MouseMove now cx cy)
  with assms show ?thesis by auto
next
  case (Layout w h l t rw rh)
  with assms show ?thesis by auto
next
  case DetachCanvas
  with assms show ?thesis by auto
qed

lemma target_run:
  assumes "run evs s = Inr s'" and "\<not> mouse_listener s"
  shows "targetMousePos s' = targetMousePos s \<and> \<not> mouse_listener s'"
  using assms
proof (induction evs arbitrary: s)
  case Nil
  then show ?case by simp
next
  case (Cons e evs)
  from Cons.prems obtain s1 where s1: "step e s = Inr s1" "run evs s1 = Inr s'"
    by (auto split: sum.splits)
  from target_step [OF s1(1) Cons.prems(2)] Cons.IH [OF s1(2)] show ?case by simp
qed

lemma target_effect:
  assumes "ctn_present (env s0)" and "\<not> mouseReact p" and "\<not> mouse_listener s0"
  shows "targetMousePos (effect p s0) = targetMousePos s0 \<and> \<not> mouse_listener (effect p s0)"
  using assms
  by (simp add: effect_def effect_from_program_def effect_setup_def resize_def log_call_def
      requestAnimationFrame_def Let_def split: option.splits)


lemma quiescent_first_render: "quiescent (first_render h)"
  by (simp add: quiescent_def first_render_def)

lemma idle_first_render:
  assumes "ctn_present h"
  shows "idle_centred (first_render h)"
  using assms by (simp add: idle_centred_def quiescent_def first_render_def)

text \<open>
  Claim C9, as the code has it. Both refs are at the centre (0.5, 0.5) at the first
  render, and no run of the effect sets them: a later run starts from what the earlier
  sessions left. With the container there:

  \<^item> if \<open>mouseReact\<close> is false in every session since the mount, then whatever the browser
    does the component goes on without error, no pointer listener is registered or was
    ever asked for, target and smoothed position are still (0.5, 0.5), and \<open>uMouse\<close> is
    (0.5, 0.5) in the program and in every frame drawn;
  \<^item> in a session with \<open>mouseReact\<close> false that starts with nothing registered or pending
    (as after any cleanup), whatever the browser does the session goes on without
    error, no pointer listener is registered and the target is the one the session
    started with.
\<close>

theorem pointer_stays_centred:
  assumes "ctn_present h"
  shows "mousePos (first_render h) = (0.5, 0.5) \<and>
         targetMousePos (first_render h) = (0.5, 0.5) \<and>
         (ss \<noteq> [] \<and> (\<forall>(p, evs) \<in> set ss. \<not> mouseReact p) \<longrightarrow>
            (\<exists>s. lifetime (first_render h) ss = Inr s \<and>
                 \<not> mouse_listener s \<and> AddMouseListener \<notin> set (calls s) \<and>
                 targetMousePos s = (0.5, 0.5) \<and> mousePos s = (0.5, 0.5) \<and>
                 (\<exists>u. program s = Some u \<and> uMouse u = (0.5, 0.5)) \<and>
                 (\<forall>u \<in> set (drawn s). uMouse u = (0.5, 0.5)))) \<and>
         (quiescent s0 \<and> ctn_present (env s0) \<and> \<not> mouseReact p \<longrightarrow>
            (\<exists>s. run evs (effect p s0) = Inr s \<and>
                 \<not> mouse_listener s \<and> targetMousePos s = targetMousePos s0))"
proof (intro conjI impI)
  show "mousePos (first_render h) = (0.5, 0.5)"
    and "targetMousePos (first_render h) = (0.5, 0.5)"
    by (simp_all add: first_render_def)
next
  assume a: "ss \<noteq> [] \<and> (\<forall>(p, evs) \<in> set ss. \<not> mouseReact p)"
  from lifetime_centred [OF idle_first_render [OF assms]] a obtain s where
    s: "lifetime (first_render h) ss = Inr s" "centred s" by blast
  from s(2) have "\<not> mouse_listener s \<and> AddMouseListener \<notin> set (calls s) \<and>
              targetMousePos s = (0.5, 0.5) \<and> mousePos s = (0.5, 0.5) \<and>
              (\<exists>u. program s = Some u \<and> uMouse u = (0.5, 0.5)) \<and>
              (\<forall>u \<in> set (drawn s). uMouse u = (0.5, 0.5))"
    by (simp add: centred_iff list_all_iff)
  with s(1) show "\<exists>s. lifetime (first_render h) ss = Inr s \<and>
                 \<not> mouse_listener s \<and> AddMouseListener \<notin> set (calls s) \<and>
                 targetMousePos s = (0.5, 0.5) \<and> mousePos s = (0.5, 0.5) \<and>
                 (\<exists>u. program s = Some u \<and> uMouse u = (0.5, 0.5)) \<and>
                 (\<forall>u \<in> set (drawn s). uMouse u = (0.5, 0.5))"
    by blast
next
  assume b: "quiescent s0 \<and> ctn_present (env s0) \<and> \<not> mouseReact p"
  then have q: "ctn_present (env s0)" "pending_frames s0 = {}" "pending_timers s0 = {}"
    "\<not> mouse_listener s0" "\<not> mouseReact p"
    by (simp_all add: quiescent_def)
  from running_effect_from [OF q(1-4), of p] have "running p (effect p s0)" .
  from run_running [OF this, of evs] obtain s where
    s: "run evs (effect p s0) = Inr s" by blast
  from target_effect [OF q(1) q(5) q(4)] target_run [OF s]
  have "\<not> mouse_listener s \<and> targetMousePos s = targetMousePos s0" by simp
  with s show "\<exists>s. run evs (effect p s0) = Inr s \<and>
                 \<not> mouse_listener s \<and> targetMousePos s = targetMousePos s0"
    by blast
qed

text \<open>
  Two sessions with \<open>mouseReact\<close> false in the scenario's container (the second after
  \<open>speed\<close> changed): a pointer move reaches no listener, and the frames at 1000 ms and
  at 3000 ms are drawn with \<open>uMouse = (0.5, 0.5)\<close>. And a session with \<open>mouseReact\<close> false
  that starts with the target at (0.25, 0.25): the target stays there.
\<close>

theorem pointer_stays_centred_witness:
  "ctn_present demo_host \<and>
   (\<exists>s. lifetime (first_render demo_host)
            [(default_props\<lparr>mouseReact := False\<rparr>,
              [MouseMove 1000 200 450, AnimationFrame 1 1000]),
             (default_props\<lparr>mouseReact := False, speed := 2\<rparr>,
              [AnimationFrame 3 3000])] = Inr s \<and>
        map uMouse (drawn s) = [(0.5, 0.5), (0.5, 0.5)] \<and>
        targetMousePos s = (0.5, 0.5) \<and> mousePos s = (0.5, 0.5) \<and> \<not> mouse_listener s) \<and>
   quiescent ((first_render demo_host)\<lparr>targetMousePos := (1 / 4, 1 / 4)\<rparr>) \<and>
   (\<exists>s. run [MouseMove 1000 600 150, AnimationFrame 1 1000]
            (effect (default_props\<lparr>mouseReact := False\<rparr>)
               ((first_render demo_host)\<lparr>targetMousePos := (1 / 4, 1 / 4)\<rparr>)) = Inr s \<and>
        \<not> mouse_listener s \<and> targetMousePos s = (1 / 4, 1 / 4))"
proof -
  let ?p = "default_props\<lparr>mouseReact := False\<rparr>"
  let ?ss = "[(?p, [MouseMove 1000 200 450, AnimationFrame 1 1000]),
              (default_props\<lparr>mouseReact := False, speed := 2\<rparr>, [AnimationFrame 3 3000])]"
  let ?s0 = "(first_render demo_host)\<lparr>targetMousePos := (1 / 4, 1 / 4)\<rparr>"
  let ?evs = "[MouseMove 1000 600 150, AnimationFrame 1 1000]"
  have a: "ctn_present demo_host" by (simp add: demo_host_def)
  have b: "?ss \<noteq> [] \<and> (\<forall>(p, evs) \<in> set ?ss. \<not> mouseReact p)" by simp
  have c: "quiescent ?s0" by (simp add: quiescent_def first_render_def)
  have d: "quiescent ?s0 \<and> ctn_present (env ?s0) \<and> \<not> mouseReact ?p"
    using c by (simp add: first_render_def demo_host_def)
  note th = pointer_stays_centred [OF a, of ?ss ?s0 ?p ?evs]
  from th b obtain s where
    s: "lifetime (first_render demo_host) ?ss = Inr s"
      "\<not> mouse_listener s" "targetMousePos s = (0.5, 0.5)" "mousePos s = (0.5, 0.5)"
      "\<forall>u \<in> set (drawn s). uMouse u = (0.5, 0.5)"
    by blast
  from th d obtain s' where
    s': "run ?evs (effect ?p ?s0) = Inr s'" "\<not> mouse_listener s'"
      "targetMousePos s' = targetMousePos ?s0"
    by blast
  have "map_sum id (length \<circ> drawn) (lifetime (first_render demo_host) ?ss) = Inr 2"
    by (simp add: effect_def effect_from_program_def effect_setup_def
      resize_def first_render_def demo_host_def default_props_def log_call_def
      requestAnimationFrame_def cancelAnimationFrame_def clearTimeout_def cleanup_def
      handleMouseMove_def update_def render_def MOUSE_THROTTLE_def FRAME_DURATION_eq
      js_rem_floor rounding_defs Let_def)
  with s(1) have "length (drawn s) = 2" by simp
  then obtain u1 u2 where "drawn s = [u1, u2]"
    by (cases "drawn s"; cases "tl (drawn s)") auto
  with s(5) have mm: "map uMouse (drawn s) = [(0.5, 0.5), (0.5, 0.5)]" by simp
  have e1: "\<exists>s. lifetime (first_render demo_host) ?ss = Inr s \<and>
        map uMouse (drawn s) = [(0.5, 0.5), (0.5, 0.5)] \<and>
        targetMousePos s = (0.5, 0.5) \<and> mousePos s = (0.5, 0.5) \<and> \<not> mouse_listener s"
    using s(1-4) mm by (intro exI [of _ s] conjI)
  from s'(3) have "targetMousePos s' = (1 / 4, 1 / 4)" by simp
  with s'(1,2) have e2: "\<exists>s. run ?evs (effect ?p ?s0) = Inr s \<and>
        \<not> mouse_listener s \<and> targetMousePos s = (1 / 4, 1 / 4)"
    by (intro exI [of _ s'] conjI)
  from a e1 c e2 show ?thesis by (intro conjI)
qed


text \<open>
  Claim C9 as stated fails: the refs outlive the sessions. After a session in which the
  pointer moved to (0.25, 0.25) of the box, a session with \<open>mouseReact\<close> false registers no
  listener and does not change the target, but its frame at 1000 ms moves the smoothed
  position to 0.475 and is drawn with \<open>uMouse\<close> at the single-precision 0.475 in both
  coordinates, not at (0.5, 0.5).
\<close>

theorem centred_after_rerun_counterexample:
  "map_sum id (map uMouse \<circ> drawn) (lifetime (first_render demo_host) pointer_then_static) =
     Inr [(15938355 / 33554432, 15938355 / 33554432)] \<and>
   map_sum id mouse_listener (lifetime (first_render demo_host) pointer_then_static) =
     Inr False \<and>
   map_sum id targetMousePos (lifetime (first_render demo_host) pointer_then_static) =
     Inr (1 / 4, 1 / 4) \<and>
   map_sum id mousePos (lifetime (first_render demo_host) pointer_then_static) =
     Inr (19 / 40, 19 / 40)"
  by (simp add: pointer_then_static_def effect_def effect_from_program_def effect_setup_def
      resize_def first_render_def demo_host_def default_props_def log_call_def
      requestAnimationFrame_def cancelAnimationFrame_def clearTimeout_def cleanup_def
      handleMouseMove_def update_def render_def MOUSE_THROTTLE_def FRAME_DURATION_eq
      js_rem_floor rounding_defs Let_def)

end
